theory Spec2Isabelle
  imports Complex_Main "HOL-Library.Multiset" "HOL-Library.Log_Nat"
begin

section \<open>Numbers and strings of the source language\<close>

text \<open>
  The source is TypeScript. A finite \<^verbatim>\<open>number\<close> is modelled as the rational it
  is; \<^verbatim>\<open>NaN\<close> and \<^verbatim>\<open>null\<close> results are \<open>None\<close>. Strings are lists of
  ASCII characters.

  The Normalizer and the scoring of the fuzzy suggestions are modelled with the rounding
  of IEEE doubles (\<open>fl\<close> below), since what they return depends on it. The Matching
  Engine is modelled over the amounts as exact decimal numbers.
\<close>

subsection \<open>Doubles\<close>

text \<open>
  \<open>fl x\<close> is the double nearest to the rational \<open>x\<close>: 53 significant bits, a tie
  going to the even significand, and the fixed spacing \<open>2 ^ -1074\<close> below
  \<open>2 ^ -1022\<close>. The overflow to \<^verbatim>\<open>Infinity\<close>, which needs a magnitude of
  \<open>2 ^ 1024\<close> (a number of more than 300 digits), is not modelled.
\<close>

definition pow2 :: "int \<Rightarrow> rat" where
  "pow2 e = (if 0 \<le> e then 2 ^ nat e else 1 / 2 ^ nat (- e))"

text \<open>The exponent \<open>e\<close> with \<open>2 ^ e \<le> x < 2 ^ (e + 1)\<close>, for a positive \<open>x\<close>.\<close>

definition log2floor :: "rat \<Rightarrow> int" where
  "log2floor x =
     (let e = bitlen (fst (quotient_of x)) - bitlen (snd (quotient_of x))
      in if pow2 e \<le> x then e else e - 1)"

definition roundTiesToEven :: "rat \<Rightarrow> int" where
  "roundTiesToEven x =
     (let f = \<lfloor>x\<rfloor>; d = x - of_int f
      in if d < 1 / 2 then f
         else if 1 / 2 < d then f + 1
         else if even f then f else f + 1)"

definition fl :: "rat \<Rightarrow> rat" where
  "fl x =
     (if x = 0 then 0
      else
        let e = max (log2floor \<bar>x\<bar>) (- 1022);
            ulp = pow2 (e - 52)
        in of_int (roundTiesToEven (x / ulp)) * ulp)"

subsection \<open>Rounding and characters\<close>

text \<open>\<^verbatim>\<open>Math.round(x)\<close>: the nearest integer, a tie going towards plus infinity.\<close>

definition Math_round :: "rat \<Rightarrow> int" where
  "Math_round x = \<lfloor>x + 1 / 2\<rfloor>"

text \<open>
  The idiom \<^verbatim>\<open>Math.round(n * 100) / 100\<close> of the source: on doubles, where the
  product and the quotient are rounded, and on exact decimal amounts.
\<close>

definition round2d :: "rat \<Rightarrow> rat" where
  "round2d n = fl (of_int (Math_round (fl (n * 100))) / 100)"

definition round2 :: "rat \<Rightarrow> rat" where
  "round2 n = of_int (Math_round (n * 100)) / 100"

definition isDigit :: "char \<Rightarrow> bool" where
  "isDigit c = (c \<in> set ''0123456789'')"

definition digitVal :: "char \<Rightarrow> int" where
  "digitVal c = of_char c - 48"

text \<open>The value of a run of decimal digits, most significant first.\<close>

fun digitsVal :: "int \<Rightarrow> string \<Rightarrow> int" where
  "digitsVal acc [] = acc"
| "digitsVal acc (c # cs) = digitsVal (acc * 10 + digitVal c) cs"

text \<open>ASCII white space, as matched by \<^verbatim>\<open>\s\<close> and removed by \<^verbatim>\<open>trim()\<close>.\<close>

definition isSpace :: "char \<Rightarrow> bool" where
  "isSpace c = (c \<in> set [CHR '' '', CHR 0x09, CHR 0x0A, CHR 0x0B, CHR 0x0C, CHR 0x0D])"

definition trim :: "string \<Rightarrow> string" where
  "trim s = rev (dropWhile isSpace (rev (dropWhile isSpace s)))"

definition isUpper :: "char \<Rightarrow> bool" where
  "isUpper c = (c \<in> set ''ABCDEFGHIJKLMNOPQRSTUVWXYZ'')"

definition lowerChar :: "char \<Rightarrow> char" where
  "lowerChar c =
     (case map_of (zip ''ABCDEFGHIJKLMNOPQRSTUVWXYZ'' ''abcdefghijklmnopqrstuvwxyz'') c of
        None \<Rightarrow> c
      | Some l \<Rightarrow> l)"

definition toLowerCase :: "string \<Rightarrow> string" where
  "toLowerCase s = map lowerChar s"

fun startsWith :: "string \<Rightarrow> string \<Rightarrow> bool" where
  "startsWith s [] = True"
| "startsWith [] (c # cs) = False"
| "startsWith (x # xs) (c # cs) = (x = c \<and> startsWith xs cs)"

text \<open>\<^verbatim>\<open>s.includes(c)\<close>: \<open>c\<close> occurs in \<open>s\<close> as a contiguous substring.\<close>

fun str_includes :: "string \<Rightarrow> string \<Rightarrow> bool" where
  "str_includes [] c = (c = [])"
| "str_includes (x # xs) c = (startsWith (x # xs) c \<or> str_includes xs c)"

text \<open>\<^verbatim>\<open>s.replace(",", ".")\<close> with a string pattern: the first occurrence only.\<close>

fun replaceFirst :: "char \<Rightarrow> char \<Rightarrow> string \<Rightarrow> string" where
  "replaceFirst a b [] = []"
| "replaceFirst a b (c # cs) = (if c = a then b # cs else c # replaceFirst a b cs)"

section \<open>Normalizer: amount parsing\<close>

text \<open>
  A cell of a raw row: \<^verbatim>\<open>string | number | null | undefined\<close>. \<open>Num x\<close> is the
  number cell that holds the double nearest to \<open>x\<close>.
\<close>

datatype cell = Absent | Num rat | Str string

type_synonym raw_row = "(string \<times> cell) list"

definition lookup :: "raw_row \<Rightarrow> string \<Rightarrow> cell" where
  "lookup r k = (case map_of r k of None \<Rightarrow> Absent | Some v \<Rightarrow> v)"

text \<open>
  \<^verbatim>\<open>parseFloat\<close> on the alphabet that survives the cleaning regular expression
  (digits, minus, period, comma): an optional minus sign, digits, optionally a period
  and more digits; the longest such prefix is read and the rest is ignored. With no
  digit at all the result is \<^verbatim>\<open>NaN\<close>; otherwise it is the double nearest to the
  decimal number read.
\<close>

definition parseFloat :: "string \<Rightarrow> rat option" where
  "parseFloat s =
     (let neg = startsWith s ''-'';
          body = (if neg then tl s else s);
          ip = takeWhile isDigit body;
          rest = dropWhile isDigit body;
          fp = (if startsWith rest ''.'' then takeWhile isDigit (tl rest) else [])
      in if ip = [] \<and> fp = [] then None
         else
           let v = of_int (digitsVal 0 ip) + of_int (digitsVal 0 fp) / 10 ^ length fp
           in Some (fl (if neg then - v else v)))"

text \<open>The string handed to \<^verbatim>\<open>parseFloat\<close>: lines 163 to 169 of the source.\<close>

definition normalizeAmountString :: "string \<Rightarrow> string" where
  "normalizeAmountString s =
     (let cleaned = filter (\<lambda>c. isDigit c \<or> c \<in> set ''-.,'') s
      in if CHR '','' \<in> set cleaned \<and> CHR ''.'' \<in> set cleaned
           then filter (\<lambda>c. c \<noteq> CHR '','') cleaned
         else if CHR '','' \<in> set cleaned \<and> CHR ''.'' \<notin> set cleaned
           then replaceFirst (CHR '','') (CHR ''.'') (filter (\<lambda>c. c \<noteq> CHR ''.'') cleaned)
         else cleaned)"

fun parseAmount :: "cell \<Rightarrow> rat option" where
  "parseAmount Absent = None"
| "parseAmount (Num raw) = Some (round2d (fl raw))"
| "parseAmount (Str raw) =
     (let s = trim raw
      in if s = [] then None
         else case parseFloat (normalizeAmountString s) of
                None \<Rightarrow> None
              | Some n \<Rightarrow> Some (round2d n))"

text \<open>
  The double a cell denotes before it is rounded (\<^verbatim>\<open>raw\<close>, respectively
  \<^verbatim>\<open>n\<close>).
\<close>

fun parsedValue :: "cell \<Rightarrow> rat option" where
  "parsedValue Absent = None"
| "parsedValue (Num raw) = Some (fl raw)"
| "parsedValue (Str raw) =
     (if trim raw = [] then None else parseFloat (normalizeAmountString (trim raw)))"

text \<open>
  The amount of one row, lines 189 to 198 of \<^verbatim>\<open>normalizeRows\<close>. The optional
  column names of a \<^verbatim>\<open>Mapping\<close> are options; \<^verbatim>\<open>undefined\<close> and the empty
  string are the falsy ones.
\<close>

datatype mode = Amount | DebitCredit

datatype sign_convention = CreditPositive | DebitPositive

record mapping =
  map_mode :: mode
  map_date :: string
  map_amount :: "string option"
  map_debit :: "string option"
  map_credit :: "string option"
  map_description :: "string option"
  map_signConvention :: "sign_convention option"

definition truthy :: "string option \<Rightarrow> bool" where
  "truthy s = (case s of None \<Rightarrow> False | Some t \<Rightarrow> t \<noteq> [])"

text \<open>\<^verbatim>\<open>col || ""\<close> and \<^verbatim>\<open>parseAmount(..) || 0\<close>.\<close>

definition orEmpty :: "string option \<Rightarrow> string" where
  "orEmpty s = (case s of None \<Rightarrow> [] | Some t \<Rightarrow> t)"

definition orZero :: "rat option \<Rightarrow> rat" where
  "orZero x = (case x of None \<Rightarrow> 0 | Some v \<Rightarrow> v)"

text \<open>The combination of the debit and the credit cell, before line 196 rounds it.\<close>

definition debitCreditValue :: "mapping \<Rightarrow> raw_row \<Rightarrow> rat" where
  "debitCreditValue m r =
     (let debit = orZero (parseAmount (lookup r (orEmpty (map_debit m))));
          credit = orZero (parseAmount (lookup r (orEmpty (map_credit m))))
      in if map_signConvention m = Some CreditPositive then fl (credit - debit)
         else fl (debit - credit))"

definition rowAmount :: "mapping \<Rightarrow> raw_row \<Rightarrow> rat option" where
  "rowAmount m r =
     (if map_mode m = Amount \<and> truthy (map_amount m)
        then parseAmount (lookup r (orEmpty (map_amount m)))
      else if map_mode m = DebitCredit \<and> (truthy (map_debit m) \<or> truthy (map_credit m))
        then Some (round2d (debitCreditValue m r))
      else None)"

text \<open>
  Rounding to two decimals as the specification words it: half away from zero.
\<close>

definition roundHalfAwayFromZero2 :: "rat \<Rightarrow> rat" where
  "roundHalfAwayFromZero2 v = sgn v * of_int \<lfloor>\<bar>v\<bar> * 100 + 1 / 2\<rfloor> / 100"

text \<open>\<open>a\<close> is a whole number of hundredths.\<close>

definition twoDecimals :: "rat \<Rightarrow> bool" where
  "twoDecimals a = (of_int \<lfloor>a * 100\<rfloor> = a * 100)"

section \<open>Column Mapper\<close>

fun findIndex :: "('a \<Rightarrow> bool) \<Rightarrow> 'a list \<Rightarrow> nat option" where
  "findIndex P [] = None"
| "findIndex P (x # xs) = (if P x then Some 0 else map_option Suc (findIndex P xs))"

text \<open>
  The local function \<^verbatim>\<open>pick\<close> of \<^verbatim>\<open>detectMapping\<close>: the candidates in order,
  for each the first header whose lowered form contains it; with no hit,
  \<^verbatim>\<open>fallback || headers[0] || ""\<close>.
\<close>

fun pick :: "string list \<Rightarrow> string list \<Rightarrow> string \<Rightarrow> string" where
  "pick headers [] fallback =
     (if fallback \<noteq> [] then fallback else case headers of [] \<Rightarrow> [] | h # _ \<Rightarrow> h)"
| "pick headers (c # cands) fallback =
     (case findIndex (\<lambda>h. str_includes h c) (map toLowerCase headers) of
        Some idx \<Rightarrow> headers ! idx
      | None \<Rightarrow> pick headers cands fallback)"

definition detectMapping :: "string list \<Rightarrow> mapping" where
  "detectMapping headers =
     (let date = pick headers [''date'', ''posted'', ''txn date'', ''transaction date'', ''value date''] [];
          amount = pick headers [''amount'', ''amt'', ''value''] [];
          debit = pick headers [''debit'', ''withdrawal'', ''dr''] [];
          credit = pick headers [''credit'', ''deposit'', ''cr''] [];
          description = pick headers
            [''description'', ''details'', ''narration'', ''memo'', ''payee'', ''particulars''] [];
          mode = (if amount \<noteq> [] then Amount else DebitCredit)
      in \<lparr> map_mode = mode, map_date = date, map_amount = Some amount, map_debit = Some debit,
           map_credit = Some credit, map_description = Some description,
           map_signConvention = Some CreditPositive \<rparr>)"

section \<open>Matching Engine\<close>

datatype source = Bank | Cashbook

record mapped_row =
  row_id :: string
  source :: source
  index :: nat
  dateStr :: string
  dateISO :: string
  amount :: rat
  description :: string
  raw :: raw_row

record match_pair =
  pair_id :: string
  bank :: "mapped_row option"
  cashbook :: "mapped_row option"
  matched :: bool
  amountDiff :: rat
  dateDiffDays :: int

datatype date_format = Auto | YearMonthDay | DayMonthYear | MonthDayYear

datatype strategy = Strict | Smart

record reconcile_settings =
  amountTolerance :: rat
  dateWindowDays :: rat
  dateFormat :: date_format
  currency :: string
  strategy :: strategy

subsection \<open>Day distance\<close>

text \<open>
  \<^verbatim>\<open>new Date(iso + "T00:00:00Z").getTime()\<close> for a string of the shape
  \<^verbatim>\<open>YYYY-MM-DD\<close>, which is the only shape \<^verbatim>\<open>toISODate\<close> builds for a four-digit
  year: the day number of ECMA-262 (\<open>DayFromYear\<close>, the day within the year) times the
  milliseconds of a day. Any other string, and a month or day out of range, is an
  invalid date, whose time value is \<^verbatim>\<open>NaN\<close>.
\<close>

definition isLeapYear :: "int \<Rightarrow> bool" where
  "isLeapYear y = (y mod 4 = 0 \<and> (y mod 100 \<noteq> 0 \<or> y mod 400 = 0))"

definition daysInMonth :: "int \<Rightarrow> nat \<Rightarrow> int" where
  "daysInMonth y m =
     (if m = 2 then (if isLeapYear y then 29 else 28)
      else if m \<in> {4, 6, 9, 11} then 30 else 31)"

definition dayFromYear :: "int \<Rightarrow> int" where
  "dayFromYear y =
     365 * (y - 1970) + (y - 1969) div 4 - (y - 1901) div 100 + (y - 1601) div 400"

text \<open>The days of the year before the first of month \<open>m\<close> (1 to 12).\<close>

definition dayWithinYear :: "int \<Rightarrow> nat \<Rightarrow> int" where
  "dayWithinYear y m =
     [0, 31, 59, 90, 120, 151, 181, 212, 243, 273, 304, 334] ! (m - 1)
       + (if 2 < m \<and> isLeapYear y then 1 else 0)"

definition dayNumber :: "string \<Rightarrow> int option" where
  "dayNumber s =
     (let ys = take 4 s; ms = take 2 (drop 5 s); ds = take 2 (drop 8 s)
      in if length s = 10 \<and> s ! 4 = CHR ''-'' \<and> s ! 7 = CHR ''-''
            \<and> list_all isDigit (ys @ ms @ ds)
         then
           let y = digitsVal 0 ys; m = nat (digitsVal 0 ms); d = digitsVal 0 ds
           in if 1 \<le> m \<and> m \<le> 12 \<and> 1 \<le> d \<and> d \<le> daysInMonth y m
              then Some (dayFromYear y + dayWithinYear y m + d - 1)
              else None
         else None)"

definition getTime :: "string \<Rightarrow> int option" where
  "getTime s = map_option (\<lambda>d. d * 86400000) (dayNumber s)"

text \<open>\<^verbatim>\<open>daysBetween\<close>; \<open>None\<close> is \<^verbatim>\<open>NaN\<close>.\<close>

definition daysBetween :: "string \<Rightarrow> string \<Rightarrow> int option" where
  "daysBetween iso1 iso2 =
     (case (getTime iso1, getTime iso2) of
        (Some a, Some b) \<Rightarrow> Some (Math_round (of_int \<bar>a - b\<bar> / 86400000))
      | _ \<Rightarrow> None)"

subsection \<open>Description score\<close>

text \<open>
  \<^verbatim>\<open>split(/\s+/).filter(Boolean)\<close>: the maximal runs of characters that are not white
  space. \<open>cur\<close> holds the run being read, reversed.
\<close>

fun splitWords :: "string \<Rightarrow> string \<Rightarrow> string list" where
  "splitWords cur [] = (if cur = [] then [] else [rev cur])"
| "splitWords cur (c # cs) =
     (if isSpace c then (if cur = [] then splitWords [] cs else rev cur # splitWords [] cs)
      else splitWords (c # cur) cs)"

definition isLowerAlnum :: "char \<Rightarrow> bool" where
  "isLowerAlnum c = (c \<in> set ''abcdefghijklmnopqrstuvwxyz0123456789'')"

definition tokenize :: "string \<Rightarrow> string set" where
  "tokenize s =
     set (splitWords []
       (map (\<lambda>c. if isLowerAlnum c \<or> isSpace c then c else CHR '' '') (toLowerCase s)))"

definition descriptionScore :: "string \<Rightarrow> string \<Rightarrow> int" where
  "descriptionScore a b =
     (let ta = tokenize a; tb = tokenize b
      in if card ta = 0 \<or> card tb = 0 then 50
         else
           let common = card {t \<in> ta. t \<in> tb};
               union = card ta + card tb - common;
               jaccard = (if union = 0 then 0 else of_nat common / of_nat union)
           in Math_round ((1 - jaccard) * 50))"

subsection \<open>Sorting\<close>

text \<open>
  \<^verbatim>\<open>Array.prototype.sort\<close> with a comparator is stable; for a comparator that is a
  total preorder its result is the one of stable insertion sort.
\<close>

fun insortBy :: "('a \<Rightarrow> 'a \<Rightarrow> rat) \<Rightarrow> 'a \<Rightarrow> 'a list \<Rightarrow> 'a list" where
  "insortBy cmp x [] = [x]"
| "insortBy cmp x (y # ys) = (if cmp x y \<le> 0 then x # y # ys else y # insortBy cmp x ys)"

definition sortBy :: "('a \<Rightarrow> 'a \<Rightarrow> rat) \<Rightarrow> 'a list \<Rightarrow> 'a list" where
  "sortBy cmp xs = foldr (insortBy cmp) xs []"

text \<open>
  \<^verbatim>\<open>localeCompare\<close>, as the comparison of the character codes; on two ISO dates of
  the same shape every collation agrees with it.
\<close>

fun localeCompare :: "string \<Rightarrow> string \<Rightarrow> int" where
  "localeCompare [] [] = 0"
| "localeCompare [] (y # ys) = - 1"
| "localeCompare (x # xs) [] = 1"
| "localeCompare (x # xs) (y # ys) =
     (if x = y then localeCompare xs ys
      else if (of_char x :: nat) < of_char y then - 1 else 1)"

definition compareRows :: "mapped_row \<Rightarrow> mapped_row \<Rightarrow> rat" where
  "compareRows a b =
     (if dateISO a = dateISO b then amount a - amount b
      else of_int (localeCompare (dateISO a) (dateISO b)))"

definition pairDate :: "match_pair \<Rightarrow> string" where
  "pairDate p =
     (let c = (case cashbook p of None \<Rightarrow> [] | Some c \<Rightarrow> dateISO c)
      in case bank p of None \<Rightarrow> c | Some b \<Rightarrow> if dateISO b \<noteq> [] then dateISO b else c)"

definition pairAmount :: "match_pair \<Rightarrow> rat" where
  "pairAmount p =
     (case bank p of
        Some b \<Rightarrow> amount b
      | None \<Rightarrow> (case cashbook p of Some c \<Rightarrow> amount c | None \<Rightarrow> 0))"

definition comparePairs :: "match_pair \<Rightarrow> match_pair \<Rightarrow> rat" where
  "comparePairs p1 p2 =
     (if pairDate p1 \<noteq> pairDate p2 then of_int (localeCompare (pairDate p1) (pairDate p2))
      else pairAmount p1 - pairAmount p2)"

subsection \<open>Summary\<close>

record totals =
  bankCount :: nat
  cashbookCount :: nat
  matchedPairs :: nat
  unmatchedBank :: nat
  unmatchedCash :: nat
  totalBank :: rat
  totalCash :: rat
  netDiff :: rat
  unmatchedBankAmount :: rat
  unmatchedCashAmount :: rat

definition isBankOnly :: "match_pair \<Rightarrow> bool" where
  "isBankOnly p = (\<not> matched p \<and> bank p \<noteq> None \<and> cashbook p = None)"

definition isCashOnly :: "match_pair \<Rightarrow> bool" where
  "isCashOnly p = (\<not> matched p \<and> cashbook p \<noteq> None \<and> bank p = None)"

text \<open>\<^verbatim>\<open>p.bank?.amount || 0\<close>.\<close>

definition amountOrZero :: "mapped_row option \<Rightarrow> rat" where
  "amountOrZero r = (case r of None \<Rightarrow> 0 | Some x \<Rightarrow> amount x)"

definition summarize :: "mapped_row list \<Rightarrow> mapped_row list \<Rightarrow> match_pair list \<Rightarrow> totals" where
  "summarize bk cb ps =
     (let totalBank = round2 (foldl (\<lambda>sum r. sum + amount r) 0 bk);
          totalCash = round2 (foldl (\<lambda>sum r. sum + amount r) 0 cb)
      in \<lparr> bankCount = length bk,
           cashbookCount = length cb,
           matchedPairs = length (filter matched ps),
           unmatchedBank = length (filter isBankOnly ps),
           unmatchedCash = length (filter isCashOnly ps),
           totalBank = totalBank,
           totalCash = totalCash,
           netDiff = round2 (totalBank - totalCash),
           unmatchedBankAmount =
             round2 (foldl (\<lambda>sum p. sum + amountOrZero (bank p)) 0 (filter isBankOnly ps)),
           unmatchedCashAmount =
             round2 (foldl (\<lambda>sum p. sum + amountOrZero (cashbook p)) 0 (filter isCashOnly ps)) \<rparr>)"

subsection \<open>reconcileSmart\<close>

text \<open>
  The four \<^verbatim>\<open>best...\<close> variables of the scan. \<open>bestJ = None\<close> is the index \<open>-1\<close>,
  \<open>bestScore = None\<close> is positive infinity.
\<close>

record best =
  bestJ :: "nat option"
  bestScore :: "rat option"
  bestAmountDiff :: rat
  bestDateDiff :: int

definition initialBest :: best where
  "initialBest = \<lparr> bestJ = None, bestScore = None, bestAmountDiff = 0, bestDateDiff = 0 \<rparr>"

definition belowBest :: "rat \<Rightarrow> rat option \<Rightarrow> bool" where
  "belowBest score bs = (case bs of None \<Rightarrow> True | Some s \<Rightarrow> score < s)"

text \<open>
  One turn of the inner loop (lines 328 to 341) for the cashbook index \<open>j\<close>. A
  \<^verbatim>\<open>NaN\<close> day distance fails the comparison with the window.
\<close>

definition scanStep ::
  "rat \<Rightarrow> rat \<Rightarrow> mapped_row list \<Rightarrow> nat set \<Rightarrow> mapped_row \<Rightarrow> nat \<Rightarrow> best \<Rightarrow> best" where
  "scanStep tol window cashSorted usedCash b j st =
     (if j \<in> usedCash then st
      else
        let c = cashSorted ! j;
            amountDiff = round2 (amount b - amount c)
        in case daysBetween (dateISO b) (dateISO c) of
             None \<Rightarrow> st
           | Some dateDiff \<Rightarrow>
               if \<bar>amountDiff\<bar> \<le> tol \<and> of_int dateDiff \<le> window then
                 let descScore = descriptionScore (description b) (description c);
                     score = of_int dateDiff * 1000 + \<bar>amountDiff\<bar> * 100 + of_int descScore
                 in if belowBest score (bestScore st)
                    then \<lparr> bestJ = Some j, bestScore = Some score,
                           bestAmountDiff = amountDiff, bestDateDiff = dateDiff \<rparr>
                    else st
               else st)"

definition scanCash ::
  "rat \<Rightarrow> rat \<Rightarrow> mapped_row list \<Rightarrow> nat set \<Rightarrow> mapped_row \<Rightarrow> best" where
  "scanCash tol window cashSorted usedCash b =
     fold (scanStep tol window cashSorted usedCash b) [0..<length cashSorted] initialBest"

definition matchedPair :: "mapped_row \<Rightarrow> mapped_row \<Rightarrow> best \<Rightarrow> match_pair" where
  "matchedPair b c st =
     \<lparr> pair_id = ''pair-'' @ row_id b @ ''-'' @ row_id c, bank = Some b, cashbook = Some c,
       matched = True, amountDiff = bestAmountDiff st, dateDiffDays = bestDateDiff st \<rparr>"

definition bankOnlyPair :: "mapped_row \<Rightarrow> match_pair" where
  "bankOnlyPair b =
     \<lparr> pair_id = ''pair-'' @ row_id b @ ''-none'', bank = Some b, cashbook = None,
       matched = False, amountDiff = amount b, dateDiffDays = 0 \<rparr>"

definition cashOnlyPair :: "mapped_row \<Rightarrow> match_pair" where
  "cashOnlyPair c =
     \<lparr> pair_id = ''pair-none-'' @ row_id c, bank = None, cashbook = Some c,
       matched = False, amountDiff = - amount c, dateDiffDays = 0 \<rparr>"

text \<open>
  The loop over the sorted bank rows (lines 320 to 351); the state is \<^verbatim>\<open>usedCash\<close>
  and \<^verbatim>\<open>pairs\<close>.
\<close>

fun matchBank ::
  "rat \<Rightarrow> rat \<Rightarrow> mapped_row list \<Rightarrow> mapped_row list \<Rightarrow> nat set \<times> match_pair list
    \<Rightarrow> nat set \<times> match_pair list" where
  "matchBank tol window cashSorted [] (usedCash, ps) = (usedCash, ps)"
| "matchBank tol window cashSorted (b # bs) (usedCash, ps) =
     (let st = scanCash tol window cashSorted usedCash b
      in case bestJ st of
           Some j \<Rightarrow>
             matchBank tol window cashSorted bs
               (insert j usedCash, ps @ [matchedPair b (cashSorted ! j) st])
         | None \<Rightarrow>
             matchBank tol window cashSorted bs (usedCash, ps @ [bankOnlyPair b]))"

text \<open>The loop of lines 353 to 358 over the cashbook rows that were never used.\<close>

definition unusedCash :: "mapped_row list \<Rightarrow> nat set \<Rightarrow> match_pair list" where
  "unusedCash cashSorted usedCash =
     map (\<lambda>j. cashOnlyPair (cashSorted ! j))
       (filter (\<lambda>j. j \<notin> usedCash) [0..<length cashSorted])"

record reconcile_result =
  pairs :: "match_pair list"
  stats :: totals

definition reconcileSmart ::
  "mapped_row list \<Rightarrow> mapped_row list \<Rightarrow> reconcile_settings \<Rightarrow> reconcile_result" where
  "reconcileSmart bk cash settings =
     (let bankSorted = sortBy compareRows bk;
          cashSorted = sortBy compareRows cash;
          tol = amountTolerance settings;
          window = dateWindowDays settings;
          (usedCash, ps) = matchBank tol window cashSorted bankSorted ({}, []);
          ps' = sortBy comparePairs (ps @ unusedCash cashSorted usedCash)
      in \<lparr> pairs = ps', stats = summarize bankSorted cashSorted ps' \<rparr>)"

text \<open>
  The reconcile operation, \<^verbatim>\<open>runReconcile\<close> (lines 563 to 567), on the rows that
  \<^verbatim>\<open>normalizeRows\<close> made of the two files: it hands the settings to
  \<^verbatim>\<open>reconcileSmart\<close> as they are. No line of the source reads
  \<^verbatim>\<open>settings.strategy\<close>.
\<close>

definition runReconcile ::
  "mapped_row list \<Rightarrow> mapped_row list \<Rightarrow> reconcile_settings \<Rightarrow> reconcile_result" where
  "runReconcile bn cn settings = reconcileSmart bn cn settings"

subsection \<open>Notions used to state the properties of the pairs\<close>

text \<open>The bank rows and the cashbook rows that occur in a list of pairs, in order.\<close>

definition bankSides :: "match_pair list \<Rightarrow> mapped_row list" where
  "bankSides ps = List.map_filter bank ps"

definition cashSides :: "match_pair list \<Rightarrow> mapped_row list" where
  "cashSides ps = List.map_filter cashbook ps"

text \<open>
  What the scan has established about the candidate it holds: an unused index of the
  sorted cashbook whose differences to the bank row \<open>b\<close> are the stored ones and are
  within the tolerance and the window.
\<close>

definition goodBest ::
  "rat \<Rightarrow> rat \<Rightarrow> mapped_row list \<Rightarrow> nat set \<Rightarrow> mapped_row \<Rightarrow> best \<Rightarrow> bool" where
  "goodBest tol window cashSorted usedCash b st =
     (case bestJ st of
        None \<Rightarrow> True
      | Some j \<Rightarrow>
          j < length cashSorted \<and> j \<notin> usedCash
          \<and> bestAmountDiff st = round2 (amount b - amount (cashSorted ! j))
          \<and> daysBetween (dateISO b) (dateISO (cashSorted ! j)) = Some (bestDateDiff st)
          \<and> \<bar>bestAmountDiff st\<bar> \<le> tol \<and> of_int (bestDateDiff st) \<le> window)"

text \<open>
  The shape of a pair: its id names its two sides, and it is a matched pair of two rows
  with their rounded amount difference
  and their day distance, both within the limits; a bank row alone with its amount; a
  cashbook row alone with its negated amount.
\<close>

definition sideId :: "mapped_row option \<Rightarrow> string" where
  "sideId r = (case r of None \<Rightarrow> ''none'' | Some x \<Rightarrow> row_id x)"

definition pairShape :: "rat \<Rightarrow> rat \<Rightarrow> match_pair \<Rightarrow> bool" where
  "pairShape tol window p =
     (pair_id p = ''pair-'' @ sideId (bank p) @ ''-'' @ sideId (cashbook p)
      \<and> (case (bank p, cashbook p) of
        (Some b, Some c) \<Rightarrow>
          matched p \<and> amountDiff p = round2 (amount b - amount c)
          \<and> daysBetween (dateISO b) (dateISO c) = Some (dateDiffDays p)
          \<and> \<bar>amountDiff p\<bar> \<le> tol \<and> of_int (dateDiffDays p) \<le> window
      | (Some b, None) \<Rightarrow> \<not> matched p \<and> amountDiff p = amount b \<and> dateDiffDays p = 0
      | (None, Some c) \<Rightarrow> \<not> matched p \<and> amountDiff p = - amount c \<and> dateDiffDays p = 0
      | (None, None) \<Rightarrow> False))"

text \<open>The accounting of the used cashbook indices that the bank loop maintains.\<close>

definition cashInv :: "mapped_row list \<Rightarrow> nat set \<times> match_pair list \<Rightarrow> bool" where
  "cashInv cs s =
     (case s of (used, ps) \<Rightarrow>
        used \<subseteq> {..<length cs}
        \<and> mset (cashSides ps) = image_mset ((!) cs) (mset_set used)
        \<and> length (filter matched ps) = card used
        \<and> length (filter isBankOnly ps) + card used = length ps
        \<and> filter isCashOnly ps = [])"

text \<open>The two alternatives of a pair that the specification names.\<close>

definition matchedWithin :: "rat \<Rightarrow> rat \<Rightarrow> match_pair \<Rightarrow> bool" where
  "matchedWithin tol window p =
     (bank p \<noteq> None \<and> cashbook p \<noteq> None \<and> matched p
      \<and> \<bar>amountDiff p\<bar> \<le> tol \<and> of_int (dateDiffDays p) \<le> window)"

definition oneSidedUnmatched :: "match_pair \<Rightarrow> bool" where
  "oneSidedUnmatched p = (((bank p = None) \<noteq> (cashbook p = None)) \<and> \<not> matched p)"

subsection \<open>Rows and settings of the scenarios\<close>

text \<open>
  Scenario D of the specification: a bank row of 100.00 and a cashbook row of 100.05
  on the same day.
\<close>

definition bankRowD :: mapped_row where
  "bankRowD = \<lparr> row_id = ''bank-0'', source = Bank, index = 0, dateStr = ''05/01/2024'',
     dateISO = ''2024-01-05'', amount = 100, description = ''Invoice 123'', raw = [] \<rparr>"

definition cashRowD :: mapped_row where
  "cashRowD = \<lparr> row_id = ''cashbook-0'', source = Cashbook, index = 0, dateStr = ''05/01/2024'',
     dateISO = ''2024-01-05'', amount = 10005 / 100, description = ''INV 123 payment'',
     raw = [] \<rparr>"

definition settingsOf :: "rat \<Rightarrow> rat \<Rightarrow> strategy \<Rightarrow> reconcile_settings" where
  "settingsOf tol window strat =
     \<lparr> amountTolerance = tol, dateWindowDays = window, dateFormat = Auto, currency = ''USD'',
       strategy = strat \<rparr>"

text \<open>The pair of the two rows of Scenario D.\<close>

definition pairD :: match_pair where
  "pairD = \<lparr> pair_id = ''pair-bank-0-cashbook-0'', bank = Some bankRowD,
     cashbook = Some cashRowD, matched = True, amountDiff = - 5 / 100, dateDiffDays = 0 \<rparr>"

section \<open>Fuzzy suggestions\<close>

text \<open>
  \<^verbatim>\<open>runAISuggestions\<close> of the reconciliation workspace works on the
  \<^verbatim>\<open>FinancialRecord\<close>s of the application; the record below has the fields it reads.
  The amount of a record is the double nearest to \<open>rec_amount\<close>.
\<close>

datatype record_status = StatusMatched | StatusUnmatched | StatusPending | StatusException
  | StatusSuggested

record financial_record =
  rec_id :: string
  rec_source :: source
  rec_date :: string
  rec_amount :: rat
  rec_description :: string
  rec_reference :: "string option"
  rec_status :: record_status

subsection \<open>Document numbers\<close>

definition isWordChar :: "char \<Rightarrow> bool" where
  "isWordChar c = (isDigit c \<or> isUpper c \<or> isLowerAlnum c \<or> c = CHR ''_'')"

text \<open>The longest run of digits at the start of \<open>s\<close>, when it has at least \<open>n\<close> digits.\<close>

definition digitRun :: "nat \<Rightarrow> string \<Rightarrow> string option" where
  "digitRun n s = (let ds = takeWhile isDigit s in if n \<le> length ds then Some ds else None)"

text \<open>
  The four patterns, each matched at the start of \<open>s\<close>; \<open>prev\<close> is the character before
  \<open>s\<close>, needed for the word boundary. A greedy \<^verbatim>\<open>{2,3}\<close> tries three letters first.

  \<^verbatim>\<open>/[A-Z]{2,3}-\d{4,}/\<close>:
\<close>

definition lettersDashDigits :: "nat \<Rightarrow> string \<Rightarrow> string option" where
  "lettersDashDigits n s =
     (if length (take n s) = n \<and> list_all isUpper (take n s) \<and> startsWith (drop n s) ''-''
      then map_option (\<lambda>ds. take n s @ ''-'' @ ds) (digitRun 4 (drop (Suc n) s))
      else None)"

definition matchInvoiceDash :: "char option \<Rightarrow> string \<Rightarrow> string option" where
  "matchInvoiceDash prev s =
     (case lettersDashDigits 3 s of Some m \<Rightarrow> Some m | None \<Rightarrow> lettersDashDigits 2 s)"

text \<open>\<^verbatim>\<open>/[A-Z]{2,3}\d{4,}/\<close>:\<close>

definition lettersDigits :: "nat \<Rightarrow> string \<Rightarrow> string option" where
  "lettersDigits n s =
     (if length (take n s) = n \<and> list_all isUpper (take n s)
      then map_option (\<lambda>ds. take n s @ ds) (digitRun 4 (drop n s))
      else None)"

definition matchInvoice :: "char option \<Rightarrow> string \<Rightarrow> string option" where
  "matchInvoice prev s =
     (case lettersDigits 3 s of Some m \<Rightarrow> Some m | None \<Rightarrow> lettersDigits 2 s)"

text \<open>
  \<^verbatim>\<open>/\d{4,}\/\d{2,}/\<close>: the slash can only follow the whole first run of digits.
\<close>

definition matchSlashed :: "char option \<Rightarrow> string \<Rightarrow> string option" where
  "matchSlashed prev s =
     (case digitRun 4 s of
        None \<Rightarrow> None
      | Some ds \<Rightarrow>
          if startsWith (drop (length ds) s) ''/''
          then map_option (\<lambda>es. ds @ ''/'' @ es) (digitRun 2 (drop (Suc (length ds)) s))
          else None)"

text \<open>
  \<^verbatim>\<open>/\b\d{5,}\b/\<close>: a whole run of at least five digits with no word character
  before it and none after it.
\<close>

definition matchLongNumber :: "char option \<Rightarrow> string \<Rightarrow> string option" where
  "matchLongNumber prev s =
     (if (case prev of None \<Rightarrow> True | Some p \<Rightarrow> \<not> isWordChar p)
      then (case digitRun 5 s of
              None \<Rightarrow> None
            | Some ds \<Rightarrow>
                (case drop (length ds) s of
                   [] \<Rightarrow> Some ds
                 | c # _ \<Rightarrow> if isWordChar c then None else Some ds))
      else None)"

text \<open>
  \<^verbatim>\<open>description.match(p)\<close> for a pattern with the \<^verbatim>\<open>g\<close> flag: all matches from
  left to right, the search resuming at the end of the last match. \<open>skip\<close> counts the
  characters of the last match still to pass.
\<close>

fun matchAll ::
  "(char option \<Rightarrow> string \<Rightarrow> string option) \<Rightarrow> nat \<Rightarrow> char option \<Rightarrow> string \<Rightarrow> string list" where
  "matchAll matchAt skip prev [] = []"
| "matchAll matchAt skip prev (c # cs) =
     (if 0 < skip then matchAll matchAt (skip - 1) (Some c) cs
      else case matchAt prev (c # cs) of
             Some m \<Rightarrow> m # matchAll matchAt (length m - 1) (Some c) cs
           | None \<Rightarrow> matchAll matchAt 0 (Some c) cs)"

text \<open>\<^verbatim>\<open>Array.from(new Set(found))\<close>: the first occurrence of each element, in order.\<close>

definition dedupe :: "'a list \<Rightarrow> 'a list" where
  "dedupe xs = rev (remdups (rev xs))"

definition extractDocNumbers :: "string \<Rightarrow> string list" where
  "extractDocNumbers desc =
     dedupe (concat (map (\<lambda>p. matchAll p 0 None desc)
       [matchInvoiceDash, matchInvoice, matchSlashed, matchLongNumber]))"

subsection \<open>String similarity\<close>

text \<open>
  One turn of the outer loop of \<^verbatim>\<open>editDistance\<close> for the character \<open>a\<close> of
  \<^verbatim>\<open>s1\<close>: the inner loop over \<^verbatim>\<open>s2\<close>. The list holds the old costs from index
  \<open>j - 1\<close> on, \<open>lastValue\<close> is the new cost of index \<open>j - 1\<close>.
\<close>

fun editRow :: "char \<Rightarrow> string \<Rightarrow> nat list \<Rightarrow> nat \<Rightarrow> nat list" where
  "editRow a (b # bs) (c0 # c1 # costs) lastValue =
     (let newValue = (if a \<noteq> b then min (min c0 lastValue) c1 + 1 else c0)
      in lastValue # editRow a bs (c1 # costs) newValue)"
| "editRow a bs costs lastValue = [lastValue]"

fun editRows :: "nat \<Rightarrow> string \<Rightarrow> string \<Rightarrow> nat list \<Rightarrow> nat list" where
  "editRows i [] s2 costs = costs"
| "editRows i (a # as) s2 costs = editRows (Suc i) as s2 (editRow a s2 costs i)"

definition editDistance :: "string \<Rightarrow> string \<Rightarrow> nat" where
  "editDistance s1 s2 =
     (let a = toLowerCase s1; b = toLowerCase s2
      in last (editRows 1 a b [0..<Suc (length b)]))"

definition calculateStringSimilarity :: "string \<Rightarrow> string \<Rightarrow> rat" where
  "calculateStringSimilarity s1 s2 =
     (let longer = (if length s1 > length s2 then s1 else s2);
          shorter = (if length s1 > length s2 then s2 else s1)
      in if length longer = 0 then 1
         else fl ((of_nat (length longer) - of_nat (editDistance longer shorter))
                    / of_nat (length longer)))"

subsection \<open>Scoring and the suggestion list\<close>

text \<open>
  A suggestion without its \<^verbatim>\<open>id\<close>, which the source draws from the clock and a
  random number.
\<close>

record suggestion =
  sug_bank :: financial_record
  sug_cash :: financial_record
  sug_confidence :: int
  sug_reasons :: "string list"

text \<open>
  In what follows \<open>timeOf s\<close> stands for \<^verbatim>\<open>new Date(s).getTime()\<close>, a whole
  number of milliseconds, with \<open>None\<close> for \<^verbatim>\<open>NaN\<close>: how a date string of a record
  is read is left to the platform. The differences and the quotients are those of
  doubles.
  The four parts of the score, each with the reasons it adds (lines 262 to 295).
\<close>

definition amountPart :: "financial_record \<Rightarrow> financial_record \<Rightarrow> int \<times> string list" where
  "amountPart bk cash =
     (let amountDiff = \<bar>fl (fl (rec_amount bk) - fl (rec_amount cash))\<bar>
      in if amountDiff = 0 then (60, [''Exact amount match''])
         else if amountDiff < fl (1 / 10) then (40, [''Negligible amount difference''])
         else (0, []))"

fun showNat :: "nat \<Rightarrow> string" where
  "showNat n =
     (if n < 10 then [''0123456789'' ! n]
      else showNat (n div 10) @ [''0123456789'' ! (n mod 10)])"

definition datePart ::
  "(string \<Rightarrow> int option) \<Rightarrow> financial_record \<Rightarrow> financial_record \<Rightarrow> int \<times> string list" where
  "datePart timeOf bk cash =
     (case (timeOf (rec_date bk), timeOf (rec_date cash)) of
        (Some t1, Some t2) \<Rightarrow>
          (let dateDiff = fl (\<bar>fl (rat_of_int t1 - rat_of_int t2)\<bar> / (1000 * 3600 * 24))
           in if dateDiff = 0 then (20, [''Same transaction date''])
              else if dateDiff \<le> 3
                then (10, [''Close date ('' @ showNat (nat \<lceil>dateDiff\<rceil>) @ '' days)''])
              else (0, []))
      | _ \<Rightarrow> (0, []))"

text \<open>\<^verbatim>\<open>commonDocs.join(", ")\<close>.\<close>

fun joinComma :: "string list \<Rightarrow> string" where
  "joinComma [] = []"
| "joinComma [x] = x"
| "joinComma (x # y # ys) = x @ '', '' @ joinComma (y # ys)"

text \<open>\<^verbatim>\<open>cash.description || cash.reference || ""\<close>.\<close>

definition cashDocText :: "financial_record \<Rightarrow> string" where
  "cashDocText cash =
     (if rec_description cash \<noteq> [] then rec_description cash
      else case rec_reference cash of None \<Rightarrow> [] | Some r \<Rightarrow> r)"

definition docPart :: "financial_record \<Rightarrow> financial_record \<Rightarrow> int \<times> string list" where
  "docPart bk cash =
     (let bankDocNos = extractDocNumbers (rec_description bk);
          cashDocNos = extractDocNumbers (cashDocText cash);
          commonDocs = filter (\<lambda>doc. doc \<in> set cashDocNos) bankDocNos
      in if 0 < length commonDocs then (30, [''Reference match: '' @ joinComma commonDocs])
         else (0, []))"

definition textPart :: "financial_record \<Rightarrow> financial_record \<Rightarrow> int \<times> string list" where
  "textPart bk cash =
     (if calculateStringSimilarity (rec_description bk) (rec_description cash) > fl (8 / 10)
      then (15, [''Highly similar descriptions'']) else (0, []))"

text \<open>The value of \<^verbatim>\<open>score\<close> at line 297.\<close>

definition suggestionScore ::
  "(string \<Rightarrow> int option) \<Rightarrow> financial_record \<Rightarrow> financial_record \<Rightarrow> int" where
  "suggestionScore timeOf bk cash =
     fst (amountPart bk cash) + fst (datePart timeOf bk cash) + fst (docPart bk cash)
       + fst (textPart bk cash)"

definition suggestionReasons ::
  "(string \<Rightarrow> int option) \<Rightarrow> financial_record \<Rightarrow> financial_record \<Rightarrow> string list" where
  "suggestionReasons timeOf bk cash =
     snd (amountPart bk cash) @ snd (datePart timeOf bk cash) @ snd (docPart bk cash)
       @ snd (textPart bk cash)"

text \<open>The body of the inner \<^verbatim>\<open>forEach\<close>: what one combination pushes.\<close>

definition suggest ::
  "(string \<Rightarrow> int option) \<Rightarrow> financial_record \<Rightarrow> financial_record \<Rightarrow> suggestion list" where
  "suggest timeOf bk cash =
     (let score = suggestionScore timeOf bk cash
      in if 40 \<le> score
         then [\<lparr> sug_bank = bk, sug_cash = cash, sug_confidence = min score 100,
                 sug_reasons = suggestionReasons timeOf bk cash \<rparr>]
         else [])"

definition unmatchedOf :: "source \<Rightarrow> financial_record list \<Rightarrow> financial_record list" where
  "unmatchedOf src records =
     filter (\<lambda>r. rec_source r = src \<and> rec_status r = StatusUnmatched) records"

text \<open>\<^verbatim>\<open>newSuggestions\<close> before it is sorted.\<close>

definition newSuggestions ::
  "(string \<Rightarrow> int option) \<Rightarrow> financial_record list \<Rightarrow> suggestion list" where
  "newSuggestions timeOf records =
     concat (map (\<lambda>bk. concat (map (\<lambda>cash. suggest timeOf bk cash)
                                   (unmatchedOf Cashbook records)))
                 (unmatchedOf Bank records))"

definition compareConfidence :: "suggestion \<Rightarrow> suggestion \<Rightarrow> rat" where
  "compareConfidence a b = of_int (sug_confidence b - sug_confidence a)"

definition runAISuggestions ::
  "(string \<Rightarrow> int option) \<Rightarrow> financial_record list \<Rightarrow> suggestion list" where
  "runAISuggestions timeOf records = sortBy compareConfidence (newSuggestions timeOf records)"

text \<open>
  A bank record and two cashbook records with the same date and description; the first
  cashbook record is five cents off, the second has the exact amount. Their dates are
  ISO dates, which \<^verbatim>\<open>new Date(s)\<close> reads as midnight UTC of that day: for them
  \<open>timeOf\<close> is \<open>getTime\<close>.
\<close>

definition bankRec :: financial_record where
  "bankRec = \<lparr> rec_id = ''b1'', rec_source = Bank, rec_date = ''2024-01-05'', rec_amount = 100,
     rec_description = ''INV-1234'', rec_reference = None,
     rec_status = StatusUnmatched \<rparr>"

definition cashRecNear :: financial_record where
  "cashRecNear = \<lparr> rec_id = ''c1'', rec_source = Cashbook, rec_date = ''2024-01-05'',
     rec_amount = 10005 / 100, rec_description = ''INV-1234'', rec_reference = None,
     rec_status = StatusUnmatched \<rparr>"

definition cashRecExact :: financial_record where
  "cashRecExact = \<lparr> rec_id = ''c2'', rec_source = Cashbook, rec_date = ''2024-01-05'',
     rec_amount = 100, rec_description = ''INV-1234'', rec_reference = None,
     rec_status = StatusUnmatched \<rparr>"

section \<open>Properties of the Normalizer\<close>

lemma parseAmount_parsedValue: "parseAmount c = map_option round2d (parsedValue c)"
  by (cases c) (auto split: option.splits)

text \<open>
  \<^verbatim>\<open>Math.round(n * 100) / 100\<close> on a double \<open>n\<close>: the double nearest to \<open>k / 100\<close>,
  where \<open>k\<close> is the whole number nearest to the double product \<open>n * 100\<close>, a tie
  going towards plus infinity.
\<close>

lemma round2d_hundredths:
  "\<exists>k. round2d n = fl (rat_of_int k / 100)
       \<and> fl (n * 100) - 1 / 2 < rat_of_int k \<and> rat_of_int k \<le> fl (n * 100) + 1 / 2"
proof -
  define k where "k = \<lfloor>fl (n * 100) + 1 / 2\<rfloor>"
  have le: "rat_of_int k \<le> fl (n * 100) + 1 / 2"
    unfolding k_def by (rule of_int_floor_le)
  have "fl (n * 100) + 1 / 2 < rat_of_int k + 1"
    using floor_correct [of "fl (n * 100) + 1 / 2"] by (simp add: k_def)
  then have gt: "fl (n * 100) - 1 / 2 < rat_of_int k"
    by simp
  have "round2d n = fl (rat_of_int k / 100)"
    by (simp add: round2d_def Math_round_def k_def)
  with le gt show ?thesis
    by blast
qed

lemma round2d_tie:
  assumes "rat_of_int \<lfloor>fl (n * 100) + 1 / 2\<rfloor> = fl (n * 100) + 1 / 2"
  shows "round2d n = fl ((fl (n * 100) + 1 / 2) / 100)"
proof -
  have "round2d n = fl (rat_of_int \<lfloor>fl (n * 100) + 1 / 2\<rfloor> / 100)"
    by (simp add: round2d_def Math_round_def)
  then show ?thesis
    by (simp only: assms)
qed

text \<open>
  C7, as the code has it. The first and the third string of Scenario E parse as the
  scenario says: to the double 1234.56, which is \<open>fl (123456 / 100)\<close>, and to -45. The
  second, \<^verbatim>\<open>"1.234,56"\<close>, holds both a comma and a period, so line 165 takes the
  commas for thousands separators and deletes them; the remaining \<^verbatim>\<open>"1.23456"\<close> is
  rounded to the double 1.23, not to 1234.56. The branch of line 167 that deletes
  periods and turns the comma into the decimal point is guarded by the absence of a
  period, so it never sees this string.
\<close>

theorem parseAmount_scenario_E:
  "parseAmount (Str ''1,234.56'') = Some (fl (123456 / 100)) \<and>
   parseAmount (Str ''-45.00'') = Some (- 45) \<and>
   parseAmount (Str ''1.234,56'') = Some (fl (123 / 100)) \<and>
   parseAmount (Str ''1.234,56'') \<noteq> Some (fl (123456 / 100))"
  by code_simp

text \<open>
  C8 as stated fails: \<^verbatim>\<open>Math.round\<close> sends a tie towards plus infinity. The string
  \<^verbatim>\<open>"-0.125"\<close> parses to the double -0.125, its product with 100 is the double
  -12.5, and the amount is the double -0.12, where rounding half away from zero gives
  -0.13.
\<close>

theorem parseAmount_negative_tie_counterexample:
  "parsedValue (Str ''-0.125'') = Some (- 125 / 1000) \<and>
   fl (- 125 / 1000 * 100) = - 25 / 2 \<and>
   parseAmount (Str ''-0.125'') = Some (fl (- 12 / 100)) \<and>
   roundHalfAwayFromZero2 (- 125 / 1000) = - 13 / 100 \<and>
   fl (- 12 / 100) \<noteq> fl (- 13 / 100) \<and>
   parseAmount (Num (- 125 / 1000)) = Some (fl (- 12 / 100))"
  by code_simp

text \<open>
  C8 amended: every amount of the Normalizer (of a single cell, and of the debit and
  credit combination) is \<^verbatim>\<open>Math.round(n * 100) / 100\<close> evaluated on doubles: the
  double nearest to \<open>k / 100\<close>, where \<open>k\<close> is the whole number nearest to the double
  product of the value and 100, a tie of that product going towards plus infinity. So a
  negative value whose product is exactly a tie moves towards zero, and what decides is
  the double product, not the decimal digits that were written.
\<close>

theorem normalizer_rounds_double_product:
  "(parseAmount c = Some a \<longrightarrow>
      (\<exists>n k. parsedValue c = Some n \<and> a = fl (rat_of_int k / 100)
         \<and> fl (n * 100) - 1 / 2 < rat_of_int k \<and> rat_of_int k \<le> fl (n * 100) + 1 / 2)) \<and>
   (map_mode m = DebitCredit \<and> rowAmount m r = Some a' \<longrightarrow>
      (\<exists>k. a' = fl (rat_of_int k / 100)
         \<and> fl (debitCreditValue m r * 100) - 1 / 2 < rat_of_int k
         \<and> rat_of_int k \<le> fl (debitCreditValue m r * 100) + 1 / 2)) \<and>
   (parsedValue c = Some v \<and> rat_of_int \<lfloor>fl (v * 100) + 1 / 2\<rfloor> = fl (v * 100) + 1 / 2 \<longrightarrow>
      parseAmount c = Some (fl ((fl (v * 100) + 1 / 2) / 100)))"
proof (intro conjI impI)
  assume "parseAmount c = Some a"
  then obtain n where n: "parsedValue c = Some n" "a = round2d n"
    by (auto simp: parseAmount_parsedValue)
  from round2d_hundredths [of n] obtain k where
    "round2d n = fl (rat_of_int k / 100)"
    "fl (n * 100) - 1 / 2 < rat_of_int k" "rat_of_int k \<le> fl (n * 100) + 1 / 2"
    by blast
  with n show "\<exists>n k. parsedValue c = Some n \<and> a = fl (rat_of_int k / 100)
         \<and> fl (n * 100) - 1 / 2 < rat_of_int k \<and> rat_of_int k \<le> fl (n * 100) + 1 / 2"
    by auto
next
  assume "map_mode m = DebitCredit \<and> rowAmount m r = Some a'"
  then have "a' = round2d (debitCreditValue m r)"
    by (auto simp: rowAmount_def split: if_splits)
  with round2d_hundredths [of "debitCreditValue m r"]
  show "\<exists>k. a' = fl (rat_of_int k / 100)
         \<and> fl (debitCreditValue m r * 100) - 1 / 2 < rat_of_int k
         \<and> rat_of_int k \<le> fl (debitCreditValue m r * 100) + 1 / 2"
    by simp
next
  assume "parsedValue c = Some v
    \<and> rat_of_int \<lfloor>fl (v * 100) + 1 / 2\<rfloor> = fl (v * 100) + 1 / 2"
  then show "parseAmount c = Some (fl ((fl (v * 100) + 1 / 2) / 100))"
    by (simp add: parseAmount_parsedValue round2d_tie)
qed

text \<open>
  The theorem at three strings. \<^verbatim>\<open>"-0.125"\<close>: the product is the tie -12.5 and the
  amount is -0.12. \<^verbatim>\<open>"1.005"\<close>: the nearest double is below 1.005, its double
  product is below 100.5, and the amount is 1. \<^verbatim>\<open>"-8.345"\<close>: the double product is
  below -834.5, and the amount is the double -8.35. And a row in debit/credit mode.
\<close>

lemma parse_examples:
  "parseAmount (Str ''-0.125'') = Some (fl (- 12 / 100))"
  "parsedValue (Str ''-0.125'') = Some (- 125 / 1000)"
  "parseAmount (Str ''1.005'') = Some 1"
  "parsedValue (Str ''1.005'') = Some (fl (1005 / 1000))"
  "fl (fl (1005 / 1000) * 100) < 1005 / 10"
  "parseAmount (Str ''-8.345'') = Some (fl (- 835 / 100))"
  "parsedValue (Str ''-8.345'') = Some (fl (- 8345 / 1000))"
  "fl (fl (- 8345 / 1000) * 100) < - 8345 / 10"
  by code_simp+

theorem normalizer_rounds_double_product_witness:
  "parseAmount (Str ''-0.125'') = Some (fl (- 12 / 100))
   \<and> parsedValue (Str ''-0.125'') = Some (- 125 / 1000)
   \<and> fl (- 125 / 1000 * 100) - 1 / 2 < - 12 \<and> - 12 \<le> fl (- 125 / 1000 * 100) + 1 / 2
   \<and> parseAmount (Str ''-0.125'') = Some (fl ((fl (- 125 / 1000 * 100) + 1 / 2) / 100))
   \<and> parseAmount (Str ''1.005'') = Some 1
   \<and> fl (fl (1005 / 1000) * 100) < 1005 / 10
   \<and> parseAmount (Str ''-8.345'') = Some (fl (- 835 / 100))
   \<and> fl (fl (- 8345 / 1000) * 100) < - 8345 / 10
   \<and> rowAmount \<lparr> map_mode = DebitCredit, map_date = ''Date'', map_amount = None,
        map_debit = Some ''Debit'', map_credit = Some ''Credit'', map_description = None,
        map_signConvention = Some CreditPositive \<rparr>
       [(''Date'', Str ''2024-01-05''), (''Debit'', Str ''0.125''), (''Credit'', Str [])]
       = Some (fl (- 13 / 100))
   \<and> (\<exists>k. fl (- 13 / 100) = fl (rat_of_int k / 100)
         \<and> fl (debitCreditValue \<lparr> map_mode = DebitCredit, map_date = ''Date'',
                  map_amount = None, map_debit = Some ''Debit'', map_credit = Some ''Credit'',
                  map_description = None, map_signConvention = Some CreditPositive \<rparr>
                [(''Date'', Str ''2024-01-05''), (''Debit'', Str ''0.125''), (''Credit'', Str [])]
                * 100) - 1 / 2 < rat_of_int k
         \<and> rat_of_int k
             \<le> fl (debitCreditValue \<lparr> map_mode = DebitCredit, map_date = ''Date'',
                  map_amount = None, map_debit = Some ''Debit'', map_credit = Some ''Credit'',
                  map_description = None, map_signConvention = Some CreditPositive \<rparr>
                [(''Date'', Str ''2024-01-05''), (''Debit'', Str ''0.125''), (''Credit'', Str [])]
                * 100) + 1 / 2)"
proof -
  let ?m = "\<lparr> map_mode = DebitCredit, map_date = ''Date'', map_amount = None,
      map_debit = Some ''Debit'', map_credit = Some ''Credit'', map_description = None,
      map_signConvention = Some CreditPositive \<rparr>"
  let ?r = "[(''Date'', Str ''2024-01-05''), (''Debit'', Str ''0.125''), (''Credit'', Str [])]"
  have ra: "rowAmount ?m ?r = Some (fl (- 13 / 100))"
    by code_simp
  have md: "map_mode ?m = DebitCredit"
    by simp
  have p: "fl (- 125 / 1000 * 100) = - 25 / 2"
    by code_simp
  have tie: "rat_of_int \<lfloor>fl (- 125 / 1000 * 100) + 1 / 2\<rfloor> = fl (- 125 / 1000 * 100) + 1 / 2"
    unfolding p by simp
  note t = normalizer_rounds_double_product
    [of "Str ''-0.125''" "fl (- 12 / 100)" ?m ?r "fl (- 13 / 100)" "- 125 / 1000"]
  from t parse_examples(2) tie
  have a: "parseAmount (Str ''-0.125'') = Some (fl ((fl (- 125 / 1000 * 100) + 1 / 2) / 100))"
    by blast
  from t ra md
  have b: "\<exists>k. fl (- 13 / 100) = fl (rat_of_int k / 100)
         \<and> fl (debitCreditValue ?m ?r * 100) - 1 / 2 < rat_of_int k
         \<and> rat_of_int k \<le> fl (debitCreditValue ?m ?r * 100) + 1 / 2"
    by blast
  have c: "fl (- 125 / 1000 * 100) - 1 / 2 < - 12" "- 12 \<le> fl (- 125 / 1000 * 100) + 1 / 2"
    unfolding p by simp_all
  from a b c ra parse_examples show ?thesis
    by (intro conjI)
qed

section \<open>Properties of the Column Mapper\<close>

text \<open>
  C6, as the code has it. The headers \<^verbatim>\<open>Date, Debit, Credit\<close> hold no amount
  candidate and hold both a debit and a credit candidate, yet the detected mode is
  \<^verbatim>\<open>amount\<close>: with no hit, \<^verbatim>\<open>pick\<close> falls back to the first header, so
  \<^verbatim>\<open>amount\<close> is the non-empty string \<^verbatim>\<open>Date\<close> and the test of line 121 takes it
  for a found amount column. The fallback half of the claim holds: the fields without
  a hit (here the amount and the description) are the first header.
\<close>

theorem detectMapping_debit_credit_headers:
  "map_mode (detectMapping [''Date'', ''Debit'', ''Credit'']) = Amount \<and>
   map_amount (detectMapping [''Date'', ''Debit'', ''Credit'']) = Some ''Date'' \<and>
   map_description (detectMapping [''Date'', ''Debit'', ''Credit'']) = Some ''Date'' \<and>
   map_debit (detectMapping [''Date'', ''Debit'', ''Credit'']) = Some ''Debit'' \<and>
   map_credit (detectMapping [''Date'', ''Debit'', ''Credit'']) = Some ''Credit''"
  by code_simp

section \<open>Properties of the Matching Engine\<close>

subsection \<open>Sorting permutes\<close>


lemma mset_insortBy: "mset (insortBy cmp x xs) = add_mset x (mset xs)"
  by (induction xs) auto

lemma mset_sortBy: "mset (sortBy cmp xs) = mset xs"
  unfolding sortBy_def by (induction xs) (auto simp: mset_insortBy)

lemma set_sortBy: "set (sortBy cmp xs) = set xs"
  using mset_sortBy [of cmp xs] by (metis set_mset_mset)

lemma length_sortBy: "length (sortBy cmp xs) = length xs"
  using mset_sortBy [of cmp xs] by (metis size_mset)

lemma length_filter_sortBy: "length (filter P (sortBy cmp xs)) = length (filter P xs)"
proof -
  have "mset (filter P (sortBy cmp xs)) = mset (filter P xs)"
    by (simp add: mset_sortBy)
  then show ?thesis by (metis size_mset)
qed

lemma mset_map_filter: "mset (List.map_filter f xs) = image_mset (the \<circ> f) (filter_mset (\<lambda>x. f x \<noteq> None) (mset xs))"
  by (simp add: List.map_filter_def)

lemma mset_map_filter_sortBy: "mset (List.map_filter f (sortBy cmp xs)) = mset (List.map_filter f xs)"
  by (simp add: mset_map_filter mset_sortBy)

lemma scanStep_good:
  assumes "j < length cs" "goodBest tol window cs used b st"
  shows "goodBest tol window cs used b (scanStep tol window cs used b j st)"
  using assms by (auto simp: scanStep_def goodBest_def Let_def split: option.splits)

lemma fold_scanStep_good:
  assumes "\<forall>j\<in>set js. j < length cs" "goodBest tol window cs used b st"
  shows "goodBest tol window cs used b (fold (scanStep tol window cs used b) js st)"
  using assms by (induction js arbitrary: st) (auto simp: scanStep_good)

lemma scanCash_good: "goodBest tol window cs used b (scanCash tol window cs used b)"
  unfolding scanCash_def by (rule fold_scanStep_good) (auto simp: goodBest_def initialBest_def)

lemma matchBank_shape:
  assumes "\<forall>p\<in>set ps. pairShape tol window p"
  shows "\<forall>p\<in>set (snd (matchBank tol window cs bs (used, ps))). pairShape tol window p"
  using assms
proof (induction bs arbitrary: used ps)
  case Nil
  then show ?case by simp
next
  case (Cons b bs)
  let ?st = "scanCash tol window cs used b"
  have g: "goodBest tol window cs used b ?st" by (rule scanCash_good)
  show ?case
  proof (cases "bestJ ?st")
    case None
    have "pairShape tol window (bankOnlyPair b)"
      by (simp add: pairShape_def bankOnlyPair_def sideId_def)
    with Cons.prems have "\<forall>p\<in>set (ps @ [bankOnlyPair b]). pairShape tol window p" by simp
    from Cons.IH [OF this] show ?thesis using None by simp
  next
    case (Some j)
    have "pairShape tol window (matchedPair b (cs ! j) ?st)"
      using g Some by (auto simp: pairShape_def matchedPair_def goodBest_def sideId_def)
    with Cons.prems have "\<forall>p\<in>set (ps @ [matchedPair b (cs ! j) ?st]). pairShape tol window p" by simp
    from Cons.IH [OF this] show ?thesis using Some by simp
  qed
qed

lemma unusedCash_shape: "\<forall>p\<in>set (unusedCash cs used). pairShape tol window p"
  by (auto simp: unusedCash_def pairShape_def cashOnlyPair_def sideId_def)

lemma matchBank_bankSides:
  "bankSides (snd (matchBank tol window cs bs (used, ps))) = bankSides ps @ bs"
proof (induction bs arbitrary: used ps)
  case Nil
  then show ?case by simp
next
  case (Cons b bs)
  have 1: "bankSides (ps @ [bankOnlyPair b]) = bankSides ps @ [b]"
    by (simp add: bankSides_def List.map_filter_def bankOnlyPair_def)
  have 2: "bankSides (ps @ [matchedPair b c st]) = bankSides ps @ [b]" for c st
    by (simp add: bankSides_def List.map_filter_def matchedPair_def)
  show ?case
    by (cases "bestJ (scanCash tol window cs used b)") (simp_all add: Cons.IH 1 2)
qed


lemma matchBank_cashInv:
  assumes "cashInv cs (used, ps)"
  shows "cashInv cs (matchBank tol window cs bs (used, ps))"
  using assms
proof (induction bs arbitrary: used ps)
  case Nil
  then show ?case by simp
next
  case (Cons b bs)
  let ?st = "scanCash tol window cs used b"
  have g: "goodBest tol window cs used b ?st" by (rule scanCash_good)
  from Cons.prems have fin: "finite used"
    by (auto simp: cashInv_def intro: finite_subset)
  show ?case
  proof (cases "bestJ ?st")
    case None
    have "cashInv cs (used, ps @ [bankOnlyPair b])"
      using Cons.prems
      by (simp add: cashInv_def cashSides_def List.map_filter_def bankOnlyPair_def
          isBankOnly_def isCashOnly_def)
    from Cons.IH [OF this] show ?thesis using None by simp
  next
    case (Some j)
    from g Some have j: "j < length cs" "j \<notin> used"
      by (simp_all add: goodBest_def)
    have "cashInv cs (insert j used, ps @ [matchedPair b (cs ! j) ?st])"
      using Cons.prems j fin
      by (simp add: cashInv_def cashSides_def List.map_filter_def matchedPair_def
          isBankOnly_def isCashOnly_def)
    from Cons.IH [OF this] show ?thesis using Some by simp
  qed
qed

lemma length_filter_used:
  assumes "used \<subseteq> {..<n}"
  shows "length (filter (\<lambda>j. j \<in> used) [0..<n]) = card used"
proof -
  have "set (filter (\<lambda>j. j \<in> used) [0..<n]) = used"
    using assms by auto
  moreover have "distinct (filter (\<lambda>j. j \<in> used) [0..<n])"
    by simp
  ultimately show ?thesis
    by (metis distinct_card)
qed

lemma length_filter_unused:
  assumes "used \<subseteq> {..<n}"
  shows "card used + length (filter (\<lambda>j. j \<notin> used) [0..<n]) = n"
  using sum_length_filter_compl [of "\<lambda>j. j \<in> used" "[0..<n]"] length_filter_used [OF assms]
  by simp

lemma mset_set_used:
  assumes "used \<subseteq> {..<n}"
  shows "mset_set used = filter_mset (\<lambda>j. j \<in> used) (mset [0..<n])"
proof -
  have "{x \<in> {0..<n}. x \<in> used} = used"
    using assms by auto
  then show ?thesis
    by (simp add: mset_upt filter_mset_mset_set del: mset_upt [symmetric])
qed

lemma cashSides_unusedCash:
  "cashSides (unusedCash cs used) = map ((!) cs) (filter (\<lambda>j. j \<notin> used) [0..<length cs])"
  by (simp add: cashSides_def unusedCash_def List.map_filter_def cashOnlyPair_def comp_def)

lemma bankSides_unusedCash: "bankSides (unusedCash cs used) = []"
  by (simp add: bankSides_def unusedCash_def List.map_filter_def cashOnlyPair_def)

lemma cashSides_append: "cashSides (ps @ qs) = cashSides ps @ cashSides qs"
  by (simp add: cashSides_def List.map_filter_def)

lemma bankSides_Nil: "bankSides [] = []"
  by (simp add: bankSides_def List.map_filter_def)

lemma bankSides_append: "bankSides (ps @ qs) = bankSides ps @ bankSides qs"
  by (simp add: bankSides_def List.map_filter_def)

lemma mset_cashSides_all:
  assumes "cashInv cs (used, ps)"
  shows "mset (cashSides (ps @ unusedCash cs used)) = mset cs"
proof -
  let ?n = "length cs"
  from assms have sub: "used \<subseteq> {..<?n}"
    and ms: "mset (cashSides ps) = image_mset ((!) cs) (mset_set used)"
    by (simp_all add: cashInv_def)
  have "mset (cashSides (ps @ unusedCash cs used))
      = image_mset ((!) cs) (filter_mset (\<lambda>j. j \<in> used) (mset [0..<?n]))
        + image_mset ((!) cs) (filter_mset (\<lambda>j. j \<notin> used) (mset [0..<?n]))"
    by (simp add: cashSides_append ms mset_set_used [OF sub] cashSides_unusedCash)
  also have "\<dots> = image_mset ((!) cs) (mset [0..<?n])"
    unfolding image_mset_union [symmetric]
    by (rule arg_cong [where f = "image_mset ((!) cs)"]) (rule multiset_partition [symmetric])
  also have "\<dots> = mset (map ((!) cs) [0..<?n])"
    by simp
  also have "\<dots> = mset cs"
    by (simp only: map_nth)
  finally show ?thesis .
qed

lemma counts_unusedCash:
  "filter matched (unusedCash cs used) = []"
  "filter isBankOnly (unusedCash cs used) = []"
  "filter isCashOnly (unusedCash cs used) = unusedCash cs used"
  by (auto simp: unusedCash_def cashOnlyPair_def isBankOnly_def isCashOnly_def filter_empty_conv
      filter_id_conv)

lemma length_matchBank:
  "length (snd (matchBank tol window cs bs (used, ps))) = length ps + length bs"
proof (induction bs arbitrary: used ps)
  case Nil
  then show ?case by simp
next
  case (Cons b bs)
  show ?case
    by (cases "bestJ (scanCash tol window cs used b)") (simp_all add: Cons.IH)
qed

lemma counts_all:
  assumes "cashInv cs (used, ps)"
  shows "2 * length (filter matched (ps @ unusedCash cs used))
       + length (filter isBankOnly (ps @ unusedCash cs used))
       + length (filter isCashOnly (ps @ unusedCash cs used)) = length ps + length cs"
proof -
  from assms have sub: "used \<subseteq> {..<length cs}"
    and m: "length (filter matched ps) = card used"
    and b: "length (filter isBankOnly ps) + card used = length ps"
    and c: "filter isCashOnly ps = []"
    by (simp_all add: cashInv_def)
  have u: "length (unusedCash cs used) = length (filter (\<lambda>j. j \<notin> used) [0..<length cs])"
    by (simp add: unusedCash_def)
  show ?thesis
    using m b c length_filter_unused [OF sub] by (simp add: counts_unusedCash u)
qed

lemma pairs_reconcileSmart:
  "pairs (reconcileSmart bk cash settings) =
     sortBy comparePairs
       (snd (matchBank (amountTolerance settings) (dateWindowDays settings)
               (sortBy compareRows cash) (sortBy compareRows bk) ({}, []))
        @ unusedCash (sortBy compareRows cash)
            (fst (matchBank (amountTolerance settings) (dateWindowDays settings)
               (sortBy compareRows cash) (sortBy compareRows bk) ({}, []))))"
  by (simp add: reconcileSmart_def Let_def split: prod.splits)

lemma cashInv_initial: "cashInv cs ({}, [])"
  by (simp add: cashInv_def cashSides_def List.map_filter_def)

subsection \<open>The pairs of reconcileSmart\<close>

lemma pairs_shape:
  assumes "p \<in> set (pairs (reconcileSmart bk cash settings))"
  shows "pairShape (amountTolerance settings) (dateWindowDays settings) p"
  using assms matchBank_shape [of "[]" "amountTolerance settings" "dateWindowDays settings"]
    unusedCash_shape [of _ _ "amountTolerance settings" "dateWindowDays settings"]
  by (auto simp: pairs_reconcileSmart set_sortBy)

lemma twoDecimals_iff: "twoDecimals a \<longleftrightarrow> (\<exists>k. a * 100 = rat_of_int k)"
  by (auto simp: twoDecimals_def)

lemma round2_twoDecimals:
  assumes "twoDecimals v"
  shows "round2 v = v"
proof -
  from assms obtain k where vk: "v * 100 = rat_of_int k"
    by (auto simp: twoDecimals_iff)
  have "\<lfloor>v * 100 + 1 / 2\<rfloor> = k"
    unfolding vk by (rule floor_unique) simp_all
  then show ?thesis
    using vk by (simp add: round2_def Math_round_def field_simps)
qed

lemma twoDecimals_diff:
  assumes "twoDecimals x" "twoDecimals y"
  shows "twoDecimals (x - y)"
proof -
  from assms obtain a b where "x * 100 = rat_of_int a" "y * 100 = rat_of_int b"
    by (auto simp: twoDecimals_iff)
  then have "(x - y) * 100 = rat_of_int (a - b)"
    by (simp add: algebra_simps)
  then show ?thesis
    unfolding twoDecimals_iff by blast
qed

text \<open>
  C2: the pairs partition the inputs. Twice the number of matched pairs plus the number
  of bank-only pairs plus the number of cashbook-only pairs is the number of bank rows
  plus the number of cashbook rows; the cashbook sides of the pairs are, as a multiset,
  exactly the cashbook rows, so no cashbook row is in more than one pair (and none is
  lost); likewise for the bank rows. In particular, when the cashbook rows have distinct
  ids, as the Normalizer gives them, no id occurs on the cashbook side of two pairs.
\<close>

theorem reconcileSmart_partitions:
  "2 * length (filter matched (pairs (reconcileSmart bk cash settings)))
     + length (filter isBankOnly (pairs (reconcileSmart bk cash settings)))
     + length (filter isCashOnly (pairs (reconcileSmart bk cash settings)))
     = length bk + length cash
   \<and> mset (cashSides (pairs (reconcileSmart bk cash settings))) = mset cash
   \<and> mset (bankSides (pairs (reconcileSmart bk cash settings))) = mset bk
   \<and> (distinct (map row_id cash)
        \<longrightarrow> distinct (map row_id (cashSides (pairs (reconcileSmart bk cash settings)))))"
proof -
  let ?cs = "sortBy compareRows cash" and ?bs = "sortBy compareRows bk"
  let ?r = "matchBank (amountTolerance settings) (dateWindowDays settings) ?cs ?bs ({}, [])"
  have inv: "cashInv ?cs (fst ?r, snd ?r)"
    using matchBank_cashInv [OF cashInv_initial, of ?cs] by simp
  have len: "length (snd ?r) = length bk"
    by (simp add: length_matchBank length_sortBy)
  have "mset (cashSides (snd ?r @ unusedCash ?cs (fst ?r))) = mset cash"
    using mset_cashSides_all [OF inv] by (simp add: mset_sortBy)
  then have c: "mset (cashSides (pairs (reconcileSmart bk cash settings))) = mset cash"
    by (simp add: pairs_reconcileSmart cashSides_def mset_map_filter_sortBy)
  have "mset (bankSides (snd ?r @ unusedCash ?cs (fst ?r))) = mset bk"
    using matchBank_bankSides [of _ _ ?cs ?bs "{}" "[]"]
    by (simp add: bankSides_append bankSides_unusedCash mset_sortBy bankSides_Nil)
  then have b: "mset (bankSides (pairs (reconcileSmart bk cash settings))) = mset bk"
    by (simp add: pairs_reconcileSmart bankSides_def mset_map_filter_sortBy)
  have n: "2 * length (filter matched (pairs (reconcileSmart bk cash settings)))
     + length (filter isBankOnly (pairs (reconcileSmart bk cash settings)))
     + length (filter isCashOnly (pairs (reconcileSmart bk cash settings)))
     = length bk + length cash"
    using counts_all [OF inv]
    by (simp add: pairs_reconcileSmart length_filter_sortBy len length_sortBy)
  have "mset (map row_id (cashSides (pairs (reconcileSmart bk cash settings))))
      = mset (map row_id cash)"
    using c by (metis mset_map)
  then have d: "distinct (map row_id cash)
      \<longrightarrow> distinct (map row_id (cashSides (pairs (reconcileSmart bk cash settings))))"
    by (metis mset_eq_imp_distinct_iff)
  from n c b d show ?thesis
    by (intro conjI)
qed

theorem reconcileSmart_partitions_witness:
  "distinct (map row_id [cashRowD])
   \<and> distinct (map row_id
         (cashSides (pairs (reconcileSmart [bankRowD] [cashRowD] (settingsOf (1 / 10) 0 Smart)))))
   \<and> 2 * length (filter matched
           (pairs (reconcileSmart [bankRowD] [cashRowD] (settingsOf (1 / 10) 0 Smart))))
       + length (filter isBankOnly
           (pairs (reconcileSmart [bankRowD] [cashRowD] (settingsOf (1 / 10) 0 Smart))))
       + length (filter isCashOnly
           (pairs (reconcileSmart [bankRowD] [cashRowD] (settingsOf (1 / 10) 0 Smart))))
       = 2"
proof -
  have d: "distinct (map row_id [cashRowD])"
    by simp
  note t = reconcileSmart_partitions [of "[bankRowD]" "[cashRowD]" "settingsOf (1 / 10) 0 Smart"]
  from t d have "distinct (map row_id
         (cashSides (pairs (reconcileSmart [bankRowD] [cashRowD] (settingsOf (1 / 10) 0 Smart)))))"
    by blast
  moreover from t have "2 * length (filter matched
           (pairs (reconcileSmart [bankRowD] [cashRowD] (settingsOf (1 / 10) 0 Smart))))
       + length (filter isBankOnly
           (pairs (reconcileSmart [bankRowD] [cashRowD] (settingsOf (1 / 10) 0 Smart))))
       + length (filter isCashOnly
           (pairs (reconcileSmart [bankRowD] [cashRowD] (settingsOf (1 / 10) 0 Smart))))
       = 2"
    by simp
  ultimately show ?thesis
    using d by blast
qed

text \<open>
  C3: every pair of the result is of exactly one of two kinds: both sides present,
  \<open>matched\<close> true, the absolute amount difference within the tolerance and the day
  distance within the window; or exactly one side present and \<open>matched\<close> false. No
  pair has both sides and \<open>matched\<close> false.
\<close>

theorem reconcileSmart_pair_alternatives:
  assumes "p \<in> set (pairs (reconcileSmart bk cash settings))"
  shows "(matchedWithin (amountTolerance settings) (dateWindowDays settings) p
            \<noteq> oneSidedUnmatched p)
         \<and> \<not> (bank p \<noteq> None \<and> cashbook p \<noteq> None \<and> \<not> matched p)"
  using pairs_shape [OF assms]
  by (cases "bank p"; cases "cashbook p")
     (auto simp: pairShape_def matchedWithin_def oneSidedUnmatched_def)

text \<open>Scenario D, evaluated: with a tolerance of 0.10 the two rows are paired.\<close>

lemma scenarioD_tolerant_pairs:
  "pairs (reconcileSmart [bankRowD] [cashRowD] (settingsOf (1 / 10) 0 strat)) = [pairD]"
  by code_simp

lemma scenarioD_exact_pairs:
  "pairs (reconcileSmart [bankRowD] [cashRowD] (settingsOf 0 0 strat)) =
     [bankOnlyPair bankRowD, cashOnlyPair cashRowD]"
  by code_simp

theorem reconcileSmart_pair_alternatives_witness:
  "pairD \<in> set (pairs (reconcileSmart [bankRowD] [cashRowD] (settingsOf (1 / 10) 0 Smart)))
   \<and> matchedWithin (1 / 10) 0 pairD \<and> \<not> oneSidedUnmatched pairD
   \<and> \<not> (bank pairD \<noteq> None \<and> cashbook pairD \<noteq> None \<and> \<not> matched pairD)"
proof -
  have mem: "pairD \<in> set (pairs (reconcileSmart [bankRowD] [cashRowD] (settingsOf (1 / 10) 0 Smart)))"
    by (simp add: scenarioD_tolerant_pairs)
  have "\<not> oneSidedUnmatched pairD"
    by (simp add: oneSidedUnmatched_def pairD_def)
  with reconcileSmart_pair_alternatives [OF mem] mem show ?thesis
    by (simp add: settingsOf_def)
qed

text \<open>
  C5 as stated fails for a cashbook-only pair: line 356 stores the negated amount of
  the cashbook row (the difference bank minus cashbook with no bank side), not the
  amount with its sign.
\<close>

theorem cashbook_only_amountDiff_counterexample:
  "pairs (reconcileSmart [] [cashRowD] (settingsOf 0 0 Smart)) = [cashOnlyPair cashRowD]
   \<and> bank (cashOnlyPair cashRowD) = None
   \<and> cashbook (cashOnlyPair cashRowD) = Some cashRowD
   \<and> amount cashRowD = 10005 / 100
   \<and> amountDiff (cashOnlyPair cashRowD) = - (10005 / 100)
   \<and> amountDiff (cashOnlyPair cashRowD) \<noteq> amount cashRowD"
proof -
  have "pairs (reconcileSmart [] [cashRowD] (settingsOf 0 0 Smart)) = [cashOnlyPair cashRowD]"
    by code_simp
  then show ?thesis
    by (simp add: cashOnlyPair_def cashRowD_def)
qed

text \<open>
  C5 amended: the amount difference of a pair with both sides is the bank amount minus
  the cashbook amount, rounded to two decimals (so it is that difference itself when
  both amounts have two decimals, as the Normalizer makes them); of a bank-only pair it
  is the bank amount; of a cashbook-only pair it is the negated cashbook amount.
\<close>

theorem reconcileSmart_amountDiff:
  assumes "p \<in> set (pairs (reconcileSmart bk cash settings))"
  shows "case (bank p, cashbook p) of
           (Some b, Some c) \<Rightarrow>
             amountDiff p = round2 (amount b - amount c)
             \<and> (twoDecimals (amount b) \<and> twoDecimals (amount c)
                  \<longrightarrow> amountDiff p = amount b - amount c)
         | (Some b, None) \<Rightarrow> amountDiff p = amount b
         | (None, Some c) \<Rightarrow> amountDiff p = - amount c
         | (None, None) \<Rightarrow> False"
  using pairs_shape [OF assms]
  by (cases "bank p"; cases "cashbook p")
     (auto simp: pairShape_def round2_twoDecimals twoDecimals_diff)

theorem reconcileSmart_amountDiff_witness:
  "pairD \<in> set (pairs (reconcileSmart [bankRowD] [cashRowD] (settingsOf (1 / 10) 0 Smart)))
   \<and> bank pairD = Some bankRowD \<and> cashbook pairD = Some cashRowD
   \<and> twoDecimals (amount bankRowD) \<and> twoDecimals (amount cashRowD)
   \<and> amountDiff pairD = amount bankRowD - amount cashRowD"
proof -
  have mem: "pairD \<in> set (pairs (reconcileSmart [bankRowD] [cashRowD] (settingsOf (1 / 10) 0 Smart)))"
    by (simp add: scenarioD_tolerant_pairs)
  have two: "twoDecimals (amount bankRowD)" "twoDecimals (amount cashRowD)"
    by (simp_all add: twoDecimals_def bankRowD_def cashRowD_def)
  have sides: "bank pairD = Some bankRowD" "cashbook pairD = Some cashRowD"
    by (simp_all add: pairD_def)
  from reconcileSmart_amountDiff [OF mem] two sides
  have "amountDiff pairD = amount bankRowD - amount cashRowD"
    by simp
  with mem two sides show ?thesis
    by simp
qed

text \<open>
  C1, as the code has it. With the strategy \<open>strict\<close>, a tolerance of 0.10 and the rows
  of Scenario D, the reconcile operation pairs 100.00 with 100.05 (amount difference
  -0.05), as \<open>smart\<close> does; the algorithm run with tolerance 0 and window 0 leaves
  both rows unmatched. The strategy is never read.
\<close>

theorem strict_strategy_is_not_applied:
  "pairs (runReconcile [bankRowD] [cashRowD] (settingsOf (1 / 10) 0 Strict)) = [pairD]
   \<and> matched pairD \<and> amountDiff pairD = - 1 / 20 \<and> amountDiff pairD \<noteq> 0
   \<and> pairs (reconcileSmart [bankRowD] [cashRowD] (settingsOf 0 0 Strict))
       = [bankOnlyPair bankRowD, cashOnlyPair cashRowD]
   \<and> pairs (runReconcile [bankRowD] [cashRowD] (settingsOf (1 / 10) 0 Strict))
       \<noteq> pairs (reconcileSmart [bankRowD] [cashRowD] (settingsOf 0 0 Strict))"
  by (simp add: runReconcile_def scenarioD_tolerant_pairs scenarioD_exact_pairs pairD_def)


subsection \<open>The description score\<close>


lemma Math_round_bounds:
  assumes "0 \<le> x" "x \<le> rat_of_int n"
  shows "0 \<le> Math_round x \<and> Math_round x \<le> n"
proof -
  have "0 \<le> \<lfloor>x + 1 / 2\<rfloor>"
    using assms(1) by (simp add: zero_le_floor)
  moreover have "x + 1 / 2 < rat_of_int n + 1"
    using assms(2) by simp
  then have "\<lfloor>x + 1 / 2\<rfloor> \<le> n"
    by (simp add: floor_le_iff)
  ultimately show ?thesis
    by (simp add: Math_round_def)
qed

lemma finite_tokenize: "finite (tokenize s)"
  by (simp add: tokenize_def)

lemma common_tokens: "{t \<in> A. t \<in> B} = A \<inter> B"
  by auto

lemma jaccard_bounds:
  fixes common union :: nat
  assumes "common \<le> union"
  shows "0 \<le> (if union = 0 then 0 else rat_of_nat common / rat_of_nat union)"
    and "(if union = 0 then 0 else rat_of_nat common / rat_of_nat union) \<le> 1"
  using assms by (auto simp: divide_le_eq_1)

text \<open>
  C10: the description score is symmetric in its two strings, and it lies between 0 and
  50 inclusive.
\<close>

theorem descriptionScore_symmetric_bounded:
  "descriptionScore a b = descriptionScore b a
   \<and> 0 \<le> descriptionScore a b \<and> descriptionScore a b \<le> 50"
proof -
  let ?ta = "tokenize a" and ?tb = "tokenize b"
  let ?common = "card (?ta \<inter> ?tb)"
  let ?union = "card ?ta + card ?tb - ?common"
  let ?j = "if ?union = 0 then 0 else rat_of_nat ?common / rat_of_nat ?union"
  have sym: "descriptionScore a b = descriptionScore b a"
    by (simp add: descriptionScore_def Let_def common_tokens Int_commute add.commute disj_commute)
  have "?common \<le> card ?ta" "?common \<le> card ?tb"
    by (simp_all add: card_mono finite_tokenize)
  then have le: "?common \<le> ?union"
    by simp
  have j0: "0 \<le> ?j" and j1: "?j \<le> 1"
    using jaccard_bounds [OF le] by simp_all
  have "0 \<le> (1 - ?j) * 50" "(1 - ?j) * 50 \<le> rat_of_int 50"
    using j0 j1 by simp_all
  from Math_round_bounds [OF this]
  have r: "0 \<le> Math_round ((1 - ?j) * 50) \<and> Math_round ((1 - ?j) * 50) \<le> 50" .
  have "0 \<le> descriptionScore a b \<and> descriptionScore a b \<le> 50"
  proof (cases "card ?ta = 0 \<or> card ?tb = 0")
    case True
    then show ?thesis by (auto simp: descriptionScore_def Let_def)
  next
    case False
    then have "descriptionScore a b = Math_round ((1 - ?j) * 50)"
      by (simp add: descriptionScore_def Let_def common_tokens)
    with r show ?thesis by simp
  qed
  with sym show ?thesis by simp
qed

section \<open>Properties of the fuzzy suggestions\<close>


lemma sides_inner:
  "map (\<lambda>s. (sug_bank s, sug_cash s)) (concat (map (suggest timeOf bk) cs))
     = filter (\<lambda>(b, c). 40 \<le> suggestionScore timeOf b c) (map (Pair bk) cs)"
  by (induction cs) (auto simp: suggest_def Let_def)

lemma sides_outer:
  "map (\<lambda>s. (sug_bank s, sug_cash s)) (concat (map (\<lambda>bk. concat (map (suggest timeOf bk) cs)) bs))
     = filter (\<lambda>(b, c). 40 \<le> suggestionScore timeOf b c) (List.product bs cs)"
  by (induction bs) (simp_all add: sides_inner)

lemma sides_newSuggestions:
  "map (\<lambda>s. (sug_bank s, sug_cash s)) (newSuggestions timeOf records)
     = filter (\<lambda>(b, c). 40 \<le> suggestionScore timeOf b c)
         (List.product (unmatchedOf Bank records) (unmatchedOf Cashbook records))"
  unfolding newSuggestions_def by (rule sides_outer)

lemma confidence_inner:
  "\<forall>s\<in>set (concat (map (suggest timeOf bk) cs)).
     sug_confidence s = min (suggestionScore timeOf (sug_bank s) (sug_cash s)) 100"
  by (induction cs) (auto simp: suggest_def Let_def)

lemma confidence_newSuggestions:
  "\<forall>s\<in>set (newSuggestions timeOf records).
     sug_confidence s = min (suggestionScore timeOf (sug_bank s) (sug_cash s)) 100"
  using confidence_inner by (auto simp: newSuggestions_def)

lemma set_insortBy: "set (insortBy cmp x xs) = insert x (set xs)"
  by (induction xs) auto

lemma sorted_insortBy_confidence:
  assumes "sorted_wrt (\<lambda>a b. sug_confidence b \<le> sug_confidence a) xs"
  shows "sorted_wrt (\<lambda>a b. sug_confidence b \<le> sug_confidence a) (insortBy compareConfidence x xs)"
  using assms
  by (induction xs) (auto simp: set_insortBy compareConfidence_def)

lemma sorted_sortBy_confidence:
  "sorted_wrt (\<lambda>a b. sug_confidence b \<le> sug_confidence a) (sortBy compareConfidence xs)"
  unfolding sortBy_def by (induction xs) (simp_all add: sorted_insortBy_confidence)

text \<open>The sort is stable: suggestions of equal confidence keep their order.\<close>

lemma filter_insortBy_confidence:
  "filter (\<lambda>s. sug_confidence s = k) (insortBy compareConfidence x xs)
     = filter (\<lambda>s. sug_confidence s = k) (x # xs)"
  by (induction xs) (auto simp: compareConfidence_def)

lemma filter_sortBy_confidence:
  "filter (\<lambda>s. sug_confidence s = k) (sortBy compareConfidence xs)
     = filter (\<lambda>s. sug_confidence s = k) xs"
  unfolding sortBy_def by (induction xs) (simp_all add: filter_insortBy_confidence)

lemma sides_filter_confidence:
  "map (\<lambda>s. (sug_bank s, sug_cash s))
       (filter (\<lambda>s. sug_confidence s = k) (newSuggestions timeOf records))
     = filter (\<lambda>(b, c). 40 \<le> suggestionScore timeOf b c
                         \<and> min (suggestionScore timeOf b c) 100 = k)
         (List.product (unmatchedOf Bank records) (unmatchedOf Cashbook records))"
proof -
  let ?new = "newSuggestions timeOf records"
  let ?sides = "\<lambda>s. (sug_bank s, sug_cash s)"
  let ?capped = "\<lambda>(b, c). min (suggestionScore timeOf b c) 100 = k"
  have "filter (\<lambda>s. sug_confidence s = k) ?new = filter (?capped \<circ> ?sides) ?new"
    using confidence_newSuggestions [of timeOf records] by (intro filter_cong) auto
  then have "map ?sides (filter (\<lambda>s. sug_confidence s = k) ?new)
      = filter ?capped (map ?sides ?new)"
    by (simp only: filter_map)
  also have "\<dots> = filter ?capped (filter (\<lambda>(b, c). 40 \<le> suggestionScore timeOf b c)
         (List.product (unmatchedOf Bank records) (unmatchedOf Cashbook records)))"
    by (simp only: sides_newSuggestions)
  also have "\<dots> = filter (\<lambda>(b, c). 40 \<le> suggestionScore timeOf b c
                         \<and> min (suggestionScore timeOf b c) 100 = k)
         (List.product (unmatchedOf Bank records) (unmatchedOf Cashbook records))"
    by (simp add: case_prod_unfold)
  finally show ?thesis .
qed

text \<open>
  The amount difference is the one of the doubles: for 100.1 and 100 it is below the
  double 0.1, although the decimal numbers differ by 0.1.
\<close>

lemma amountPart_of_doubles:
  "fl (fl (1001 / 10) - fl 100) < fl (1 / 10)"
  "amountPart (bankRec \<lparr> rec_amount := 1001 / 10 \<rparr>) cashRecExact
     = (40, [''Negligible amount difference''])"
  by code_simp+

text \<open>The three records of the example, evaluated with ISO dates.\<close>

lemma example_suggestions:
  "map (\<lambda>s. (rec_id (sug_bank s), rec_id (sug_cash s), sug_confidence s,
                suggestionScore getTime (sug_bank s) (sug_cash s)))
     (runAISuggestions getTime [bankRec, cashRecNear, cashRecExact])
   = [(''b1'', ''c1'', 100, 105), (''b1'', ''c2'', 100, 125)]"
  by code_simp

lemma example_scores:
  "map (\<lambda>s. suggestionScore getTime (sug_bank s) (sug_cash s))
     (runAISuggestions getTime [bankRec, cashRecNear, cashRecExact]) = [105, 125]"
  using arg_cong [OF example_suggestions, of "map (\<lambda>(b, c, k, s). s)"]
  by (simp add: comp_def)

lemma example_confidences:
  "map sug_confidence (runAISuggestions getTime [bankRec, cashRecNear, cashRecExact])
     = [100, 100]"
  using arg_cong [OF example_suggestions, of "map (\<lambda>(b, c, k, s). k)"]
  by (simp add: comp_def)

text \<open>
  C9 as stated fails in its ordering: the list is sorted by the stored confidence,
  which is the score capped at 100. The combination with the nearly equal amount scores
  40 + 20 + 30 + 15 = 105, the one with the exact amount 60 + 20 + 30 + 15 = 125; both
  have confidence 100, the stable sort keeps the order in which they were produced,
  and so the scores of the result are 105, 125: not descending.
\<close>

theorem suggestions_score_order_counterexample:
  "map (\<lambda>s. suggestionScore getTime (sug_bank s) (sug_cash s))
     (runAISuggestions getTime [bankRec, cashRecNear, cashRecExact]) = [105, 125]
   \<and> map sug_confidence (runAISuggestions getTime [bankRec, cashRecNear, cashRecExact])
       = [100, 100]
   \<and> \<not> sorted_wrt (\<lambda>a b. suggestionScore getTime (sug_bank b) (sug_cash b)
                            \<le> suggestionScore getTime (sug_bank a) (sug_cash a))
         (runAISuggestions getTime [bankRec, cashRecNear, cashRecExact])"
proof -
  let ?res = "runAISuggestions getTime [bankRec, cashRecNear, cashRecExact]"
  let ?score = "\<lambda>s. suggestionScore getTime (sug_bank s) (sug_cash s)"
  have "sorted_wrt (\<lambda>a b. ?score b \<le> ?score a) ?res
      \<longleftrightarrow> sorted_wrt (\<lambda>x y. y \<le> x) (map ?score ?res)"
    by (simp add: sorted_wrt_map)
  then have "\<not> sorted_wrt (\<lambda>a b. ?score b \<le> ?score a) ?res"
    by (simp add: example_scores)
  then show ?thesis
    using example_scores example_confidences by simp
qed

text \<open>
  C9 amended: a suggestion is produced for exactly those combinations of an unmatched
  bank record and an unmatched cashbook record whose additive score is at least 40,
  once for each such combination (whatever other suggestions the two records are in, so
  a record may be in several); its confidence is the score capped at 100; the
  suggestions are returned sorted in descending order of confidence, and those of one
  confidence are in the order in which they were produced: bank record by bank record,
  and for each the cashbook records in turn.
\<close>

theorem runAISuggestions_suggests_and_sorts:
  "(\<forall>bk cash.
      (\<exists>s\<in>set (runAISuggestions timeOf records). sug_bank s = bk \<and> sug_cash s = cash)
        \<longleftrightarrow> (bk \<in> set (unmatchedOf Bank records) \<and> cash \<in> set (unmatchedOf Cashbook records)
             \<and> 40 \<le> suggestionScore timeOf bk cash))
   \<and> mset (map (\<lambda>s. (sug_bank s, sug_cash s)) (runAISuggestions timeOf records))
       = mset (filter (\<lambda>(b, c). 40 \<le> suggestionScore timeOf b c)
           (List.product (unmatchedOf Bank records) (unmatchedOf Cashbook records)))
   \<and> (\<forall>s\<in>set (runAISuggestions timeOf records).
        sug_confidence s = min (suggestionScore timeOf (sug_bank s) (sug_cash s)) 100)
   \<and> sorted_wrt (\<lambda>a b. sug_confidence b \<le> sug_confidence a) (runAISuggestions timeOf records)
   \<and> (\<forall>k. map (\<lambda>s. (sug_bank s, sug_cash s))
              (filter (\<lambda>s. sug_confidence s = k) (runAISuggestions timeOf records))
          = filter (\<lambda>(b, c). 40 \<le> suggestionScore timeOf b c
                              \<and> min (suggestionScore timeOf b c) 100 = k)
              (List.product (unmatchedOf Bank records) (unmatchedOf Cashbook records)))"
proof -
  let ?res = "runAISuggestions timeOf records"
  let ?new = "newSuggestions timeOf records"
  let ?combos = "filter (\<lambda>(b, c). 40 \<le> suggestionScore timeOf b c)
           (List.product (unmatchedOf Bank records) (unmatchedOf Cashbook records))"
  have ms: "mset ?res = mset ?new"
    by (simp add: runAISuggestions_def mset_sortBy)
  then have st: "set ?res = set ?new"
    by (metis set_mset_mset)
  have nw: "map (\<lambda>s. (sug_bank s, sug_cash s)) ?new = ?combos"
    by (rule sides_newSuggestions)
  have m: "mset (map (\<lambda>s. (sug_bank s, sug_cash s)) ?res) = mset ?combos"
    using ms nw by (metis mset_map)
  have im: "(\<lambda>s. (sug_bank s, sug_cash s)) ` set ?res = set ?combos"
    using nw st by (metis set_map)
  have mem: "(\<exists>s\<in>set ?res. sug_bank s = bk \<and> sug_cash s = cash)
        \<longleftrightarrow> (bk, cash) \<in> set ?combos" for bk cash
  proof
    assume "\<exists>s\<in>set ?res. sug_bank s = bk \<and> sug_cash s = cash"
    then obtain s where s: "s \<in> set ?res" and e: "sug_bank s = bk" "sug_cash s = cash"
      by auto
    from s have "(sug_bank s, sug_cash s) \<in> (\<lambda>s. (sug_bank s, sug_cash s)) ` set ?res"
      by (rule imageI)
    then show "(bk, cash) \<in> set ?combos"
      unfolding im e .
  next
    assume "(bk, cash) \<in> set ?combos"
    then have "(bk, cash) \<in> (\<lambda>s. (sug_bank s, sug_cash s)) ` set ?res"
      by (simp only: im)
    then obtain s where "s \<in> set ?res" "(bk, cash) = (sug_bank s, sug_cash s)"
      by (rule imageE)
    then show "\<exists>s\<in>set ?res. sug_bank s = bk \<and> sug_cash s = cash"
      by (intro bexI [of _ s]) simp_all
  qed
  have c: "\<forall>s\<in>set ?res. sug_confidence s = min (suggestionScore timeOf (sug_bank s) (sug_cash s)) 100"
    using confidence_newSuggestions st by blast
  have s: "sorted_wrt (\<lambda>a b. sug_confidence b \<le> sug_confidence a) ?res"
    by (simp add: runAISuggestions_def sorted_sortBy_confidence)
  have combos: "(bk, cash) \<in> set ?combos \<longleftrightarrow>
      bk \<in> set (unmatchedOf Bank records) \<and> cash \<in> set (unmatchedOf Cashbook records)
      \<and> 40 \<le> suggestionScore timeOf bk cash" for bk cash
    by simp
  have "\<forall>bk cash.
      (\<exists>s\<in>set ?res. sug_bank s = bk \<and> sug_cash s = cash)
        \<longleftrightarrow> (bk \<in> set (unmatchedOf Bank records) \<and> cash \<in> set (unmatchedOf Cashbook records)
             \<and> 40 \<le> suggestionScore timeOf bk cash)"
    by (intro allI) (simp only: mem combos)
  moreover have "\<forall>k. map (\<lambda>s. (sug_bank s, sug_cash s)) (filter (\<lambda>s. sug_confidence s = k) ?res)
          = filter (\<lambda>(b, c). 40 \<le> suggestionScore timeOf b c
                              \<and> min (suggestionScore timeOf b c) 100 = k)
              (List.product (unmatchedOf Bank records) (unmatchedOf Cashbook records))"
    by (simp add: runAISuggestions_def filter_sortBy_confidence sides_filter_confidence)
  ultimately show ?thesis
    using m c s by (intro conjI)
qed

theorem runAISuggestions_suggests_and_sorts_witness:
  "bankRec \<in> set (unmatchedOf Bank [bankRec, cashRecNear, cashRecExact])
   \<and> cashRecNear \<in> set (unmatchedOf Cashbook [bankRec, cashRecNear, cashRecExact])
   \<and> cashRecExact \<in> set (unmatchedOf Cashbook [bankRec, cashRecNear, cashRecExact])
   \<and> 40 \<le> suggestionScore getTime bankRec cashRecNear
   \<and> 40 \<le> suggestionScore getTime bankRec cashRecExact
   \<and> (\<exists>s\<in>set (runAISuggestions getTime [bankRec, cashRecNear, cashRecExact]).
         sug_bank s = bankRec \<and> sug_cash s = cashRecNear)
   \<and> (\<exists>s\<in>set (runAISuggestions getTime [bankRec, cashRecNear, cashRecExact]).
         sug_bank s = bankRec \<and> sug_cash s = cashRecExact)
   \<and> sorted_wrt (\<lambda>a b. sug_confidence b \<le> sug_confidence a)
         (runAISuggestions getTime [bankRec, cashRecNear, cashRecExact])
   \<and> map (\<lambda>s. (sug_bank s, sug_cash s))
         (filter (\<lambda>s. sug_confidence s = 100)
            (runAISuggestions getTime [bankRec, cashRecNear, cashRecExact]))
       = [(bankRec, cashRecNear), (bankRec, cashRecExact)]"
proof -
  let ?recs = "[bankRec, cashRecNear, cashRecExact]"
  have combos: "filter (\<lambda>(b, c). 40 \<le> suggestionScore getTime b c
                              \<and> min (suggestionScore getTime b c) 100 = 100)
              (List.product (unmatchedOf Bank ?recs) (unmatchedOf Cashbook ?recs))
      = [(bankRec, cashRecNear), (bankRec, cashRecExact)]"
    by code_simp
  have u: "bankRec \<in> set (unmatchedOf Bank ?recs)"
    "cashRecNear \<in> set (unmatchedOf Cashbook ?recs)"
    "cashRecExact \<in> set (unmatchedOf Cashbook ?recs)"
    by (simp_all add: unmatchedOf_def bankRec_def cashRecNear_def cashRecExact_def)
  have sc: "40 \<le> suggestionScore getTime bankRec cashRecNear"
    "40 \<le> suggestionScore getTime bankRec cashRecExact"
    by code_simp+
  note t = runAISuggestions_suggests_and_sorts [of getTime ?recs]
  from t u sc have "\<exists>s\<in>set (runAISuggestions getTime ?recs).
         sug_bank s = bankRec \<and> sug_cash s = cashRecNear"
    by blast
  moreover from t u sc have "\<exists>s\<in>set (runAISuggestions getTime ?recs).
         sug_bank s = bankRec \<and> sug_cash s = cashRecExact"
    by blast
  moreover from t have "sorted_wrt (\<lambda>a b. sug_confidence b \<le> sug_confidence a)
         (runAISuggestions getTime ?recs)"
    by blast
  moreover from t have "map (\<lambda>s. (sug_bank s, sug_cash s))
         (filter (\<lambda>s. sug_confidence s = 100) (runAISuggestions getTime ?recs))
       = filter (\<lambda>(b, c). 40 \<le> suggestionScore getTime b c
                              \<and> min (suggestionScore getTime b c) 100 = 100)
              (List.product (unmatchedOf Bank ?recs) (unmatchedOf Cashbook ?recs))"
    by blast
  ultimately show ?thesis
    using u sc combos by simp
qed

end
